theory Spec2Isabelle
  imports Main
begin

section \<open>Strings\<close>

text \<open>
  Object names are Python \<open>str\<close> values. Kubernetes object names are ASCII, so a name is
  modelled as a \<open>string\<close> (one \<open>char\<close> per character); \<open>s[:20]\<close> is \<open>take 20 s\<close>.
\<close>

definition lower_char :: "char \<Rightarrow> char" where
  "lower_char c =
     (if 65 \<le> (of_char c :: nat) \<and> (of_char c :: nat) \<le> 90
      then char_of ((of_char c :: nat) + 32) else c)"

definition lower :: "string \<Rightarrow> string" where
  "lower s = map lower_char s"

text \<open>The characters the pattern \<^verbatim>\<open>[^a-z0-9\-]\<close> does not match.\<close>

definition keep_char :: "char \<Rightarrow> bool" where
  "keep_char c =
     ((97 \<le> (of_char c :: nat) \<and> (of_char c :: nat) \<le> 122)
      \<or> (48 \<le> (of_char c :: nat) \<and> (of_char c :: nat) \<le> 57)
      \<or> c = CHR ''-'')"

text \<open>\<^verbatim>\<open>re.sub(r'[^a-z0-9\-]', '', name.lower())\<close>\<close>

definition sanitized :: "string \<Rightarrow> string" where
  "sanitized name = filter keep_char (lower name)"

text \<open>\<^verbatim>\<open>s.rstrip('-')\<close>\<close>

definition rstrip_dash :: "string \<Rightarrow> string" where
  "rstrip_dash s = rev (dropWhile (\<lambda>c. c = CHR ''-'') (rev s))"

text \<open>\<^verbatim>\<open>double_pivot_safe.sanitize_pod_name\<close>\<close>

definition sanitize_pod_name :: "string \<Rightarrow> string \<Rightarrow> string" where
  "sanitize_pod_name name prefix = prefix @ ''-'' @ rstrip_dash (take 20 (sanitized name))"

text \<open>The pod name of \<^verbatim>\<open>double_pivot_all.copy_data_with_pod\<close>: \<^verbatim>\<open>f"{prefix}-{source_pvc[:20]}"\<close>.\<close>

definition pivot_pod_name :: "string \<Rightarrow> string \<Rightarrow> string" where
  "pivot_pod_name prefix source_pvc = prefix @ ''-'' @ take 20 source_pvc"

text \<open>The pod name of \<^verbatim>\<open>moveStorage.create_pivot_pod\<close>: \<^verbatim>\<open>f"pivot-copy-{source_pvc[:20]}"\<close>.\<close>

definition pivot_copy_pod_name :: "string \<Rightarrow> string" where
  "pivot_copy_pod_name source_pvc = ''pivot-copy-'' @ take 20 source_pvc"

text \<open>\<^verbatim>\<open>s.startswith(p)\<close> and \<^verbatim>\<open>sub in s\<close> on strings.\<close>

definition startswith :: "string \<Rightarrow> string \<Rightarrow> bool" where
  "startswith s p = (take (length p) s = p)"

fun contains :: "string \<Rightarrow> string \<Rightarrow> bool" where
  "contains sub [] = (sub = [])"
| "contains sub (c # cs) = (startswith (c # cs) sub \<or> contains sub cs)"

text \<open>Formatting of values inside printed messages.\<close>

definition q :: "string \<Rightarrow> string" where
  "q s = [CHR 0x27] @ s @ [CHR 0x27]"

fun show_nat :: "nat \<Rightarrow> string" where
  "show_nat n =
     (if n < 10 then [char_of (48 + n)] else show_nat (n div 10) @ [char_of (48 + n mod 10)])"

declare show_nat.simps [simp del]

definition show_int :: "int \<Rightarrow> string" where
  "show_int i = (if i < 0 then ''-'' @ show_nat (nat (- i)) else show_nat (nat i))"

section \<open>The cluster\<close>

text \<open>
  The scripts talk to one namespace of a Kubernetes cluster through the Python client.
  The cluster is the external collaborator; it is modelled as the objects of that
  namespace, with the behaviour the API has for them: names are unique per kind, a create
  of an existing name is refused with status 409, and a delete, patch or read of a missing
  object with status 404.
\<close>

record pvc =
  pvc_name :: string
  pvc_storage_class :: "string option"
  pvc_storage :: string
  pvc_access_modes :: "string list"
  pvc_data_source :: "string option"

text \<open>
  A volume of a pod template: \<open>vol_claim\<close> is \<^verbatim>\<open>vol.persistent_volume_claim.claim_name\<close>, or
  \<open>None\<close> when the volume has no claim source.
\<close>

record volume =
  vol_name :: string
  vol_claim :: "string option"
  vol_projected :: bool

record container =
  c_name :: string
  c_image :: string
  c_command :: "string list"
  c_args :: "string list"
  c_ports :: "int list"
  c_volume_mounts :: "(string \<times> string) list"

datatype pod_phase = Pending | Running | Succeeded | Failed | Unknown

record pod =
  pod_name :: string
  pod_controlled :: bool
  pod_volumes :: "volume list"
  pod_containers :: "container list"

record claim_template =
  vct_name :: string
  vct_storage_class :: "string option"

text \<open>
  A workload controller. \<open>w_volumes\<close> are the volumes of its pod template
  (\<^verbatim>\<open>spec.template.spec.volumes\<close>, for a CronJob \<^verbatim>\<open>spec.job_template.spec.template.spec.volumes\<close>),
  with the client's \<^verbatim>\<open>None\<close> read as the empty list, as \<^verbatim>\<open>volumes or []\<close> does.
\<close>

record workload =
  w_name :: string
  w_uid :: string
  w_replicas :: "int option"
  w_volumes :: "volume list"
  w_claim_templates :: "claim_template list"
  w_node_selector :: "(string \<times> string) list option"
  w_suspend :: bool

record snapshot_class =
  sc_name :: "string option"
  sc_deletion_policy :: "string option"
  sc_driver :: "string option"

text \<open>What one read of a VolumeSnapshot shows: no \<^verbatim>\<open>status\<close> key, or its \<^verbatim>\<open>readyToUse\<close>.\<close>

datatype snapshot_status = No_status | Status "bool option"

text \<open>
  \<open>pod_status name n\<close> is the phase the \<open>n\<close>-th read of the pod \<open>name\<close> after its
  creation reports, \<open>snapshot_status name n\<close> likewise for a snapshot; \<open>snapshot_classes\<close>
  is \<open>None\<close> when listing them fails (no snapshot API installed).
\<close>

record cluster =
  pvcs :: "pvc list"
  pods :: "pod list"
  pod_status :: "string \<Rightarrow> nat \<Rightarrow> pod_phase"
  deployments :: "workload list"
  replicasets :: "workload list"
  statefulsets :: "workload list"
  daemonsets :: "workload list"
  cronjobs :: "workload list"
  jobs :: "workload list"
  snapshot_classes :: "snapshot_class list option"
  snapshots :: "string list"
  snapshot_status :: "string \<Rightarrow> nat \<Rightarrow> snapshot_status"

datatype exn = ApiException int | TypeError | KeyError string

text \<open>A value stored in the scale backup: a replica count, a marker string or a flag.\<close>

datatype py_value = VInt int | VStr string | VBool bool | VNone

subsection \<open>The API calls that change the cluster\<close>

definition cluster_create_pvc :: "pvc \<Rightarrow> cluster \<Rightarrow> exn + cluster" where
  "cluster_create_pvc p c =
     (if pvc_name p \<in> set (map pvc_name (pvcs c)) then Inl (ApiException 409)
      else Inr (c\<lparr>pvcs := pvcs c @ [p]\<rparr>))"

definition cluster_delete_pvc :: "string \<Rightarrow> cluster \<Rightarrow> exn + cluster" where
  "cluster_delete_pvc name c =
     (if name \<in> set (map pvc_name (pvcs c))
      then Inr (c\<lparr>pvcs := filter (\<lambda>p. pvc_name p \<noteq> name) (pvcs c)\<rparr>)
      else Inl (ApiException 404))"

definition cluster_create_pod :: "pod \<Rightarrow> cluster \<Rightarrow> exn + cluster" where
  "cluster_create_pod p c =
     (if pod_name p \<in> set (map pod_name (pods c)) then Inl (ApiException 409)
      else Inr (c\<lparr>pods := pods c @ [p]\<rparr>))"

definition cluster_delete_pod :: "string \<Rightarrow> cluster \<Rightarrow> exn + cluster" where
  "cluster_delete_pod name c =
     (if name \<in> set (map pod_name (pods c))
      then Inr (c\<lparr>pods := filter (\<lambda>p. pod_name p \<noteq> name) (pods c)\<rparr>)
      else Inl (ApiException 404))"

definition cluster_create_snapshot :: "string \<Rightarrow> cluster \<Rightarrow> exn + cluster" where
  "cluster_create_snapshot name c =
     (if name \<in> set (snapshots c) then Inl (ApiException 409)
      else Inr (c\<lparr>snapshots := snapshots c @ [name]\<rparr>))"

text \<open>Patching the workload \<open>name\<close> of a list: \<open>f\<close> is applied to it, 404 when it is missing.\<close>

definition patch_named :: "string \<Rightarrow> (workload \<Rightarrow> workload) \<Rightarrow> workload list \<Rightarrow> exn + workload list" where
  "patch_named name f ws =
     (if name \<in> set (map w_name ws)
      then Inr (map (\<lambda>x. if w_name x = name then f x else x) ws)
      else Inl (ApiException 404))"

text \<open>
  The scale subresource: the body \<^verbatim>\<open>{"spec": {"replicas": v}}\<close> sets the replica count;
  a value that is not a non-negative integer is refused as invalid (422).
\<close>

definition set_scale :: "string \<Rightarrow> py_value \<Rightarrow> workload list \<Rightarrow> exn + workload list" where
  "set_scale name v ws =
     (case v of
        VInt n \<Rightarrow> if n < 0 then Inl (ApiException 422)
                  else patch_named name (\<lambda>x. x\<lparr>w_replicas := Some n\<rparr>) ws
      | _ \<Rightarrow> Inl (ApiException 422))"

definition cluster_patch_deployment_scale :: "string \<Rightarrow> py_value \<Rightarrow> cluster \<Rightarrow> exn + cluster" where
  "cluster_patch_deployment_scale name v c =
     (case set_scale name v (deployments c) of
        Inl e \<Rightarrow> Inl e | Inr ws \<Rightarrow> Inr (c\<lparr>deployments := ws\<rparr>))"

definition cluster_patch_replica_set_scale :: "string \<Rightarrow> py_value \<Rightarrow> cluster \<Rightarrow> exn + cluster" where
  "cluster_patch_replica_set_scale name v c =
     (case set_scale name v (replicasets c) of
        Inl e \<Rightarrow> Inl e | Inr ws \<Rightarrow> Inr (c\<lparr>replicasets := ws\<rparr>))"

definition cluster_patch_stateful_set_scale :: "string \<Rightarrow> py_value \<Rightarrow> cluster \<Rightarrow> exn + cluster" where
  "cluster_patch_stateful_set_scale name v c =
     (case set_scale name v (statefulsets c) of
        Inl e \<Rightarrow> Inl e | Inr ws \<Rightarrow> Inr (c\<lparr>statefulsets := ws\<rparr>))"

text \<open>A strategic merge patch of a DaemonSet's \<^verbatim>\<open>nodeSelector\<close>: a map is merged into it, \<^verbatim>\<open>None\<close> removes it.\<close>

definition merge_selector :: "(string \<times> string) list option \<Rightarrow> workload \<Rightarrow> workload" where
  "merge_selector sel x =
     (case sel of
        None \<Rightarrow> x\<lparr>w_node_selector := None\<rparr>
      | Some kvs \<Rightarrow>
          x\<lparr>w_node_selector :=
              Some (filter (\<lambda>kv. fst kv \<notin> set (map fst kvs))
                      (case w_node_selector x of None \<Rightarrow> [] | Some old \<Rightarrow> old) @ kvs)\<rparr>)"

definition cluster_patch_daemon_set_selector ::
  "string \<Rightarrow> (string \<times> string) list option \<Rightarrow> cluster \<Rightarrow> exn + cluster" where
  "cluster_patch_daemon_set_selector name sel c =
     (case patch_named name (merge_selector sel) (daemonsets c) of
        Inl e \<Rightarrow> Inl e | Inr ws \<Rightarrow> Inr (c\<lparr>daemonsets := ws\<rparr>))"

definition cluster_patch_cron_job :: "string \<Rightarrow> bool \<Rightarrow> cluster \<Rightarrow> exn + cluster" where
  "cluster_patch_cron_job name b c =
     (case patch_named name (\<lambda>x. x\<lparr>w_suspend := b\<rparr>) (cronjobs c) of
        Inl e \<Rightarrow> Inl e | Inr ws \<Rightarrow> Inr (c\<lparr>cronjobs := ws\<rparr>))"

definition cluster_delete_job :: "string \<Rightarrow> cluster \<Rightarrow> exn + cluster" where
  "cluster_delete_job name c =
     (if name \<in> set (map w_name (jobs c))
      then Inr (c\<lparr>jobs := filter (\<lambda>x. w_name x \<noteq> name) (jobs c)\<rparr>)
      else Inl (ApiException 404))"

text \<open>
  \<^verbatim>\<open>patch_namespaced_deployment(name, namespace, workload)\<close> and its siblings of
  \<^verbatim>\<open>moveStorage.py\<close> send the whole, locally modified object: the stored object takes its
  volumes and claim templates.
\<close>

definition take_spec :: "workload \<Rightarrow> workload \<Rightarrow> workload" where
  "take_spec body x = x\<lparr>w_volumes := w_volumes body, w_claim_templates := w_claim_templates body\<rparr>"

definition cluster_patch_workload :: "string \<Rightarrow> string \<Rightarrow> workload \<Rightarrow> cluster \<Rightarrow> exn + cluster" where
  "cluster_patch_workload kind name body c =
     (if kind = ''Deployment'' then
        (case patch_named name (take_spec body) (deployments c) of
           Inl e \<Rightarrow> Inl e | Inr ws \<Rightarrow> Inr (c\<lparr>deployments := ws\<rparr>))
      else if kind = ''StatefulSet'' then
        (case patch_named name (take_spec body) (statefulsets c) of
           Inl e \<Rightarrow> Inl e | Inr ws \<Rightarrow> Inr (c\<lparr>statefulsets := ws\<rparr>))
      else
        (case patch_named name (take_spec body) (daemonsets c) of
           Inl e \<Rightarrow> Inl e | Inr ws \<Rightarrow> Inr (c\<lparr>daemonsets := ws\<rparr>)))"

section \<open>The world of a run\<close>

text \<open>
  A run of a script sees the cluster and the files of its working directory, prints
  messages and issues calls. \<open>trace\<close> records, in order, every mutating API call and every
  write or removal of a state file the run performs.
\<close>

record pivot_record =
  old_name :: string
  temp_name :: string
  rec_size :: string
  rec_access_modes :: "string list"

type_synonym scale_backup = "(string \<times> string \<times> string \<times> py_value) list"

datatype event =
    Create_pvc pvc
  | Delete_pvc string
  | Create_pod string
  | Delete_pod string
  | Create_snapshot string
  | Patch_scale string string py_value
  | Patch_daemon_set string "(string \<times> string) list option"
  | Patch_cron_job string bool
  | Delete_job string
  | Patch_workload string string
  | Write_file string
  | Remove_file string

record pod_manifest =
  m_name :: string
  m_namespace :: string
  m_volumes :: "(string \<times> string) list"
  m_containers :: "container list"

record report =
  pvcs_found :: "string list"
  new_pvcs :: "string list"
  pivot_pods :: "string list"
  snapshots_used :: "string list"
  workloads_patched :: "string list"
  pvcs_deleted :: "string list"
  pod_manifests :: "string list"

record world =
  cluster :: cluster
  metadata_files :: "string \<rightharpoonup> pivot_record list"
  scale_track_file :: "scale_backup option"
  manifest_files :: "(string \<times> pod_manifest) list"
  post_script :: "string list"
  dry_run_report :: report
  printed :: "string list"
  trace :: "event list"

text \<open>
  How a call ends: it returns a value, raises an exception, or never returns (a polling
  loop whose condition never comes true). The world is the one reached at that point.
\<close>

datatype 'a outcome = Return 'a | Raise exn | Hang

type_synonym 'a run = "world \<Rightarrow> 'a outcome \<times> world"

definition then_do :: "'a run \<Rightarrow> ('a \<Rightarrow> 'b run) \<Rightarrow> 'b run" where
  "then_do m f w =
     (case m w of
        (Return x, w') \<Rightarrow> f x w'
      | (Raise e, w') \<Rightarrow> (Raise e, w')
      | (Hang, w') \<Rightarrow> (Hang, w'))"

definition print :: "string \<Rightarrow> world \<Rightarrow> world" where
  "print msg w = w\<lparr>printed := printed w @ [msg]\<rparr>"

text \<open>A mutating API call: it is recorded, then applied to the cluster or refused.\<close>

definition api_call :: "event \<Rightarrow> (cluster \<Rightarrow> exn + cluster) \<Rightarrow> unit run" where
  "api_call ev f w =
     (let w' = w\<lparr>trace := trace w @ [ev]\<rparr>
      in case f (cluster w') of
           Inl e \<Rightarrow> (Raise e, w')
         | Inr c \<Rightarrow> (Return (), w'\<lparr>cluster := c\<rparr>))"

text \<open>A \<^verbatim>\<open>for\<close> loop whose body is a call: it stops at the first body that does not return.\<close>

fun for_each :: "('a \<Rightarrow> unit run) \<Rightarrow> 'a list \<Rightarrow> unit run" where
  "for_each body [] w = (Return (), w)"
| "for_each body (x # xs) w =
     (case body x w of
        (Return u, w') \<Rightarrow> for_each body xs w'
      | (Raise e, w') \<Rightarrow> (Raise e, w')
      | (Hang, w') \<Rightarrow> (Hang, w'))"

text \<open>A \<^verbatim>\<open>for\<close> loop that also updates a local variable \<open>acc\<close> (a list or dict being built).\<close>

fun for_each_acc :: "('a \<Rightarrow> 'b \<Rightarrow> 'b run) \<Rightarrow> 'a list \<Rightarrow> 'b \<Rightarrow> 'b run" where
  "for_each_acc body [] acc w = (Return acc, w)"
| "for_each_acc body (x # xs) acc w =
     (case body x acc w of
        (Return acc', w') \<Rightarrow> for_each_acc body xs acc' w'
      | (Raise e, w') \<Rightarrow> (Raise e, w')
      | (Hang, w') \<Rightarrow> (Hang, w'))"

text \<open>\<^verbatim>\<open>d[k] = v\<close> on a dict, which keeps insertion order.\<close>

definition dict_set :: "'k \<Rightarrow> 'v \<Rightarrow> ('k \<times> 'v) list \<Rightarrow> ('k \<times> 'v) list" where
  "dict_set k v d =
     (if k \<in> set (map fst d) then map (\<lambda>kv. if fst kv = k then (k, v) else kv) d
      else d @ [(k, v)])"

text \<open>
  The polling loop of the copy pod:
  \<^verbatim>\<open>while True: phase = read(pod).status.phase; if phase in ("Succeeded", "Failed"): break; sleep(2)\<close>.
  It has no bound: the result is \<open>None\<close> when no read shows a terminal phase.
\<close>

partial_function (option) wait_for_pod :: "(nat \<Rightarrow> pod_phase) \<Rightarrow> nat \<Rightarrow> pod_phase option" where
  "wait_for_pod status n =
     (if status n = Succeeded \<or> status n = Failed then Some (status n)
      else wait_for_pod status (Suc n))"

declare wait_for_pod.simps [code]

definition show_phase :: "pod_phase \<Rightarrow> string" where
  "show_phase p =
     (case p of Pending \<Rightarrow> ''Pending'' | Running \<Rightarrow> ''Running'' | Succeeded \<Rightarrow> ''Succeeded''
      | Failed \<Rightarrow> ''Failed'' | Unknown \<Rightarrow> ''Unknown'')"

text \<open>The command-line flags of the three scripts; each script reads its own.\<close>

record args =
  origin_sc :: string
  target_sc :: string
  namespace :: string
  recreate :: bool
  metadata_file :: string
  dry_run :: bool
  preserve_temp :: bool
  set_replica_0 :: bool
  prefer_snapshot :: bool
  export_pods :: bool
  delete_pvc :: bool
  copy_only :: bool

definition DEFAULT_METADATA_FILE :: string where
  "DEFAULT_METADATA_FILE = ''double_pivot_metadata.json''"

definition SCALE_TRACK_FILE :: string where
  "SCALE_TRACK_FILE = ''workload_scale_backup.json''"

text \<open>The body of the copy pod: the source claim mounted at /old, the target at /new.\<close>

definition copy_pod :: "string \<Rightarrow> string \<Rightarrow> string \<Rightarrow> string \<Rightarrow> string \<Rightarrow> string \<Rightarrow> pod" where
  "copy_pod name cmd src_vol dst_vol source_pvc target_pvc =
     \<lparr>pod_name = name, pod_controlled = False,
      pod_volumes = [\<lparr>vol_name = src_vol, vol_claim = Some source_pvc, vol_projected = False\<rparr>,
                     \<lparr>vol_name = dst_vol, vol_claim = Some target_pvc, vol_projected = False\<rparr>],
      pod_containers = [\<lparr>c_name = ''copy'', c_image = ''alpine'',
                         c_command = [''sh'', ''-c'', cmd], c_args = [], c_ports = [],
                         c_volume_mounts = [(''/old'', src_vol), (''/new'', dst_vol)]\<rparr>]\<rparr>"

section \<open>\<^verbatim>\<open>double_pivot_all.py\<close>: the basic two-phase pivot\<close>

text \<open>Non-ASCII symbols of the printed messages are transliterated.\<close>

definition list_pvcs_in_storageclass :: "string \<Rightarrow> string \<Rightarrow> world \<Rightarrow> pvc list" where
  "list_pvcs_in_storageclass ns storage_class w =
     filter (\<lambda>p. pvc_storage_class p = Some storage_class) (pvcs (cluster w))"

definition new_pvc :: "string \<Rightarrow> string \<Rightarrow> string \<Rightarrow> string list \<Rightarrow> pvc" where
  "new_pvc name storage_class sz access_modes =
     \<lparr>pvc_name = name, pvc_storage_class = Some storage_class, pvc_storage = sz,
      pvc_access_modes = access_modes, pvc_data_source = None\<rparr>"

definition create_pvc_all :: "string \<Rightarrow> string \<Rightarrow> string \<Rightarrow> string \<Rightarrow> string list \<Rightarrow> bool \<Rightarrow> unit run" where
  "create_pvc_all ns name storage_class sz access_modes dry w =
     (if dry then
        (Return (), print (''[DRY-RUN] Would create PVC '' @ q name @ '' in SC '' @ q storage_class
                            @ '' (size='' @ sz @ '').'') w)
      else
        then_do (api_call (Create_pvc (new_pvc name storage_class sz access_modes))
                   (cluster_create_pvc (new_pvc name storage_class sz access_modes)))
          (\<lambda>_ w1. (Return (), print (''[+] Created PVC '' @ q name @ '' in SC '' @ q storage_class) w1)) w)"

definition copy_data_with_pod :: "string \<Rightarrow> string \<Rightarrow> string \<Rightarrow> string \<Rightarrow> bool \<Rightarrow> unit run" where
  "copy_data_with_pod ns source_pvc target_pvc prefix dry w =
     (let pod_name = pivot_pod_name prefix source_pvc in
      if dry then
        (Return (), print (''[DRY-RUN] Would create pivot pod '' @ q pod_name @ '' to copy ''
                            @ source_pvc @ '' -> '' @ target_pvc @ ''.'') w)
      else
        then_do (api_call (Create_pod pod_name)
                   (cluster_create_pod (copy_pod pod_name
                      ''apk add --no-cache rsync && rsync -a /old/ /new/ && sleep 2''
                      ''src'' ''dst'' source_pvc target_pvc)))
          (\<lambda>_ w1.
             let w2 = print (''[~] Pivot pod '' @ q pod_name @ '' created. Waiting for it to finish...'') w1
             in case wait_for_pod (pod_status (cluster w2) pod_name) 0 of
                  None \<Rightarrow> (Hang, w2)
                | Some phase \<Rightarrow>
                    then_do (api_call (Delete_pod pod_name) (cluster_delete_pod pod_name))
                      (\<lambda>_ w3. (Return (), print (''[x] Deleted pivot pod '' @ q pod_name @ ''.'') w3))
                      (print (''[OK] Pivot pod finished with status: '' @ show_phase phase) w2)) w)"

definition write_metadata :: "string \<Rightarrow> pivot_record list \<Rightarrow> world \<Rightarrow> world" where
  "write_metadata path records w =
     w\<lparr>metadata_files := (metadata_files w)(path \<mapsto> records), trace := trace w @ [Write_file path]\<rparr>"

definition remove_metadata :: "string \<Rightarrow> world \<Rightarrow> world" where
  "remove_metadata path w =
     w\<lparr>metadata_files := (metadata_files w)(path := None), trace := trace w @ [Remove_file path]\<rparr>"

definition pivot_of :: "pvc \<Rightarrow> pivot_record" where
  "pivot_of p =
     \<lparr>old_name = pvc_name p, temp_name = pvc_name p @ ''-temp'',
      rec_size = pvc_storage p, rec_access_modes = pvc_access_modes p\<rparr>"

text \<open>The body of the loop of \<^verbatim>\<open>phase_one\<close>, \<open>pivot_info\<close> being the list built so far.\<close>

definition phase_one_step :: "args \<Rightarrow> pvc \<Rightarrow> pivot_record list \<Rightarrow> (pivot_record list) run" where
  "phase_one_step a p pivot_info w =
     then_do (create_pvc_all (namespace a) (temp_name (pivot_of p)) (target_sc a)
                (pvc_storage p) (pvc_access_modes p) (dry_run a))
       (\<lambda>_. then_do (copy_data_with_pod (namespace a) (pvc_name p) (temp_name (pivot_of p))
                       ''pivot1'' (dry_run a))
          (\<lambda>_ w2. (Return (pivot_info @ [pivot_of p]), w2)))
       (print ([CHR 0x0A] @ ''[>] Migrating '' @ q (pvc_name p) @ '' -> temp ''
                 @ q (temp_name (pivot_of p))) w)"

definition phase_one :: "args \<Rightarrow> unit run" where
  "phase_one a w =
     (let old_pvcs = list_pvcs_in_storageclass (namespace a) (origin_sc a) w in
      if old_pvcs = [] then
        (Return (), print (''[!] No PVCs found in '' @ q (namespace a) @ '' with SC ''
                            @ q (origin_sc a) @ ''. Nothing to do.'') w)
      else
        then_do (for_each_acc (phase_one_step a) old_pvcs [])
          (\<lambda>pivot_info w1.
             let w2 = (if \<not> dry_run a \<and> pivot_info \<noteq> []
                       then print (''[+] Wrote pivot metadata to '' @ q (metadata_file a))
                              (write_metadata (metadata_file a) pivot_info w1)
                       else w1)
             in (Return (),
                 print (''    After that, run this script again with `--recreate` to finalize the migration to ''
                          @ q (target_sc a) @ ''.'' @ [CHR 0x0A])
                   (print ([CHR 0x0A] @ ''[!] Phase 1 complete. Please manually delete the old PVC(s) in the cluster.'')
                      w2)))
          (print (''[=] Found '' @ show_nat (length old_pvcs) @ '' PVC(s) in '' @ q (namespace a)
                    @ '' using SC '' @ q (origin_sc a) @ ''. Starting Phase 1.'') w))"

definition phase_two_entry :: "args \<Rightarrow> pivot_record \<Rightarrow> unit run" where
  "phase_two_entry a entry w =
     then_do (create_pvc_all (namespace a) (old_name entry) (target_sc a) (rec_size entry)
                (rec_access_modes entry) (dry_run a))
       (\<lambda>_. then_do (copy_data_with_pod (namespace a) (temp_name entry) (old_name entry)
                       ''pivot2'' (dry_run a))
          (\<lambda>_ w2.
             if \<not> preserve_temp a then
               (if dry_run a then
                  (Return (), print (''[DRY-RUN] Would delete temp PVC '' @ q (temp_name entry)) w2)
                else
                  then_do (api_call (Delete_pvc (temp_name entry)) (cluster_delete_pvc (temp_name entry)))
                    (\<lambda>_ w3. (Return (), print (''[x] Deleted temp PVC '' @ q (temp_name entry)) w3)) w2)
             else
               (Return (), print (''[~] Preserving temp PVC '' @ q (temp_name entry)
                                   @ '' as requested by --preserve-temp'') w2)))
       (print ([CHR 0x0A] @ ''[>] Recreating old PVC '' @ q (old_name entry) @ '' in SC ''
                 @ q (target_sc a) @ '' from temp '' @ q (temp_name entry)) w)"

definition phase_two :: "args \<Rightarrow> unit run" where
  "phase_two a w =
     (case metadata_files w (metadata_file a) of
        None \<Rightarrow>
          (Return (), print (''[!] Metadata file '' @ q (metadata_file a)
                              @ '' not found. Cannot proceed with --recreate.'') w)
      | Some pivot_info \<Rightarrow>
          if pivot_info = [] then
            (Return (), print ''[!] Metadata is empty. Nothing to recreate.'' w)
          else
            then_do (for_each (phase_two_entry a) pivot_info)
              (\<lambda>_ w1.
                 let w2 = (if \<not> dry_run a
                           then print (''[~] Removed metadata file '' @ q (metadata_file a))
                                  (remove_metadata (metadata_file a) w1)
                           else w1)
                 in (Return (),
                     print ([CHR 0x0A] @ ''[OK] Phase 2 complete. Your PVCs now exist under their original names in the new storage class.'')
                       w2))
              (print (''[=] Found '' @ show_nat (length pivot_info) @ '' pivot records in ''
                        @ q (metadata_file a) @ ''. Starting Phase 2.'') w))"

definition main_all :: "args \<Rightarrow> unit run" where
  "main_all a w = (if recreate a then phase_two a w else phase_one a w)"

section \<open>\<^verbatim>\<open>double_pivot_safe.py\<close>: the pivot with workload scale-down and restore\<close>

definition list_pvcs :: "string \<Rightarrow> string \<Rightarrow> world \<Rightarrow> pvc list" where
  "list_pvcs ns storage_class w =
     filter (\<lambda>p. pvc_storage_class p = Some storage_class) (pvcs (cluster w))"

text \<open>Here a conflict (409) of the create is caught and reported; any other status is raised again.\<close>

definition create_pvc :: "string \<Rightarrow> string \<Rightarrow> string \<Rightarrow> string \<Rightarrow> string list \<Rightarrow> bool \<Rightarrow> unit run" where
  "create_pvc ns name storage_class sz access_modes dry w =
     (if dry then
        (Return (), print (''[DRY-RUN] Create PVC '' @ q name @ '' in SC '' @ q storage_class
                            @ '' ('' @ sz @ '')'') w)
      else
        (case api_call (Create_pvc (new_pvc name storage_class sz access_modes))
                (cluster_create_pvc (new_pvc name storage_class sz access_modes)) w of
           (Return u, w1) \<Rightarrow> (Return (), print (''[+] Created PVC '' @ q name) w1)
         | (Raise (ApiException status), w1) \<Rightarrow>
             if status = 409
             then (Return (), print (''[!] PVC '' @ q name @ '' already exists. Skipping creation.'') w1)
             else (Raise (ApiException status), w1)
         | (Raise e, w1) \<Rightarrow> (Raise e, w1)
         | (Hang, w1) \<Rightarrow> (Hang, w1)))"

definition copy_data :: "string \<Rightarrow> string \<Rightarrow> string \<Rightarrow> string \<Rightarrow> bool \<Rightarrow> unit run" where
  "copy_data ns src dst prefix dry w =
     (let pod_name = sanitize_pod_name src prefix in
      if dry then
        (Return (), print (''[DRY-RUN] Copy data '' @ src @ '' -> '' @ dst @ '' via pod '' @ pod_name) w)
      else
        then_do (api_call (Create_pod pod_name)
                   (cluster_create_pod (copy_pod pod_name
                      ''apk add rsync && rsync -a /old/ /new/ && sleep 2'' ''src'' ''dst'' src dst)))
          (\<lambda>_ w1.
             let w2 = print (''[~] Waiting for pod '' @ q pod_name @ ''...'') w1
             in case wait_for_pod (pod_status (cluster w2) pod_name) 0 of
                  None \<Rightarrow> (Hang, w2)
                | Some phase \<Rightarrow>
                    then_do (api_call (Delete_pod pod_name) (cluster_delete_pod pod_name))
                      (\<lambda>_ w3. (Return (), print (''[x] Deleted pivot pod '' @ q pod_name) w3)) w2) w)"

subsection \<open>Scaling the workloads down\<close>

text \<open>
  \<^verbatim>\<open>match_pvc_template\<close>: some volume of the pod template has a claim whose name is one of
  \<open>pvc_names\<close>. The source finds the template by the attributes of \<^verbatim>\<open>workload.spec\<close>; here
  \<open>w_volumes\<close> holds the volumes it finds.
\<close>

definition match_pvc_template :: "string list \<Rightarrow> workload \<Rightarrow> bool" where
  "match_pvc_template pvc_names workload =
     list_ex (\<lambda>vol. case vol_claim vol of None \<Rightarrow> False | Some c \<Rightarrow> c \<in> set pvc_names)
       (w_volumes workload)"

text \<open>The match of a StatefulSet: a claim named \<^verbatim>\<open><template>-<statefulset>-...\<close>, or a volume as above.\<close>

definition sts_found_match :: "string list \<Rightarrow> workload \<Rightarrow> bool" where
  "sts_found_match pvc_names sts =
     (list_ex (\<lambda>pvc_name.
         list_ex (\<lambda>vct. startswith pvc_name (vct @ ''-'' @ w_name sts @ ''-''))
           (map vct_name (w_claim_templates sts))) pvc_names
      \<or> match_pvc_template pvc_names sts)"

definition show_value :: "py_value \<Rightarrow> string" where
  "show_value v =
     (case v of VInt n \<Rightarrow> show_int n | VStr s \<Rightarrow> s
      | VBool b \<Rightarrow> (if b then ''True'' else ''False'') | VNone \<Rightarrow> ''None'')"

text \<open>
  One scalable controller: its replica count is compared with 0 (a \<^verbatim>\<open>TypeError\<close> when the
  count is \<^verbatim>\<open>None\<close>), it is scaled to 0 when positive, and the count is recorded under its uid.
\<close>

definition scale_to_zero ::
  "string \<Rightarrow> (string \<Rightarrow> py_value \<Rightarrow> cluster \<Rightarrow> exn + cluster) \<Rightarrow> bool \<Rightarrow> workload \<Rightarrow> int option
     \<Rightarrow> scale_backup \<Rightarrow> scale_backup run" where
  "scale_to_zero kind patch_scale dry x count replicas_backup w =
     (let w1 = print (''[=] Scaling down '' @ kind @ '' '' @ q (w_name x) @ ''...'') w in
      case count of
        None \<Rightarrow> (Raise TypeError, w1)
      | Some replicas \<Rightarrow>
          then_do
            (if replicas > 0 then
               (if dry then
                  (\<lambda>w2. (Return (), print (''[DRY-RUN] Would scale '' @ kind @ '' '' @ q (w_name x) @ '' to 0'') w2))
                else api_call (Patch_scale kind (w_name x) (VInt 0)) (patch_scale (w_name x) (VInt 0)))
             else (\<lambda>w2. (Return (), w2)))
            (\<lambda>_ w3. (Return (dict_set (w_uid x) (kind, w_name x, VInt replicas) replicas_backup), w3))
            w1)"

definition scale_down_deployment :: "string list \<Rightarrow> bool \<Rightarrow> workload \<Rightarrow> scale_backup \<Rightarrow> scale_backup run" where
  "scale_down_deployment pvc_names dry deploy replicas_backup w =
     (if match_pvc_template pvc_names deploy
      then scale_to_zero ''Deployment'' cluster_patch_deployment_scale dry deploy
             (w_replicas deploy) replicas_backup w
      else (Return replicas_backup, w))"

text \<open>For a ReplicaSet the count is \<^verbatim>\<open>rs.spec.replicas or 0\<close>.\<close>

definition scale_down_replicaset :: "string list \<Rightarrow> bool \<Rightarrow> workload \<Rightarrow> scale_backup \<Rightarrow> scale_backup run" where
  "scale_down_replicaset pvc_names dry rs replicas_backup w =
     (if match_pvc_template pvc_names rs
      then scale_to_zero ''ReplicaSet'' cluster_patch_replica_set_scale dry rs
             (Some (case w_replicas rs of None \<Rightarrow> 0 | Some n \<Rightarrow> n)) replicas_backup w
      else (Return replicas_backup, w))"

definition scale_down_statefulset :: "string list \<Rightarrow> bool \<Rightarrow> workload \<Rightarrow> scale_backup \<Rightarrow> scale_backup run" where
  "scale_down_statefulset pvc_names dry sts replicas_backup w =
     (if sts_found_match pvc_names sts
      then scale_to_zero ''StatefulSet'' cluster_patch_stateful_set_scale dry sts
             (w_replicas sts) replicas_backup w
      else (Return replicas_backup, w))"

definition pause_daemonset :: "string list \<Rightarrow> bool \<Rightarrow> workload \<Rightarrow> scale_backup \<Rightarrow> scale_backup run" where
  "pause_daemonset pvc_names dry ds replicas_backup w =
     (if match_pvc_template pvc_names ds then
        then_do
          (if dry then
             (\<lambda>w1. (Return (), print (''[DRY-RUN] Would patch DaemonSet '' @ q (w_name ds) @ '' with nodeSelector'') w1))
           else api_call (Patch_daemon_set (w_name ds) (Some [(''migration-paused'', ''true'')]))
                  (cluster_patch_daemon_set_selector (w_name ds) (Some [(''migration-paused'', ''true'')])))
          (\<lambda>_ w2. (Return (dict_set (w_uid ds) (''DaemonSet'', w_name ds, VStr ''patched'') replicas_backup), w2))
          (print (''[=] Pausing DaemonSet '' @ q (w_name ds) @ '' (nodeSelector patch)...'') w)
      else (Return replicas_backup, w))"

definition suspend_cronjob :: "string list \<Rightarrow> bool \<Rightarrow> workload \<Rightarrow> scale_backup \<Rightarrow> scale_backup run" where
  "suspend_cronjob pvc_names dry cj replicas_backup w =
     (if match_pvc_template pvc_names cj then
        then_do
          (if dry then
             (\<lambda>w1. (Return (), print (''[DRY-RUN] Would suspend CronJob '' @ q (w_name cj)) w1))
           else api_call (Patch_cron_job (w_name cj) True) (cluster_patch_cron_job (w_name cj) True))
          (\<lambda>_ w2. (Return (dict_set (w_uid cj) (''CronJob'', w_name cj, VBool True) replicas_backup), w2))
          (print (''[=] Suspending CronJob '' @ q (w_name cj) @ ''...'') w)
      else (Return replicas_backup, w))"

definition delete_job :: "string list \<Rightarrow> bool \<Rightarrow> workload \<Rightarrow> scale_backup \<Rightarrow> scale_backup run" where
  "delete_job pvc_names dry job replicas_backup w =
     (if match_pvc_template pvc_names job then
        then_do
          (if dry then
             (\<lambda>w1. (Return (), print (''[DRY-RUN] Would delete Job '' @ q (w_name job)) w1))
           else api_call (Delete_job (w_name job)) (cluster_delete_job (w_name job)))
          (\<lambda>_ w2. (Return (dict_set (w_uid job) (''Job'', w_name job, VStr ''deleted'') replicas_backup), w2))
          (print (''[=] Deleting active Job '' @ q (w_name job) @ ''...'') w)
      else (Return replicas_backup, w))"

definition write_scale_file :: "scale_backup \<Rightarrow> world \<Rightarrow> world" where
  "write_scale_file replicas_backup w =
     w\<lparr>scale_track_file := Some replicas_backup, trace := trace w @ [Write_file SCALE_TRACK_FILE]\<rparr>"

definition remove_scale_file :: "world \<Rightarrow> world" where
  "remove_scale_file w =
     w\<lparr>scale_track_file := None, trace := trace w @ [Remove_file SCALE_TRACK_FILE]\<rparr>"

text \<open>
  The six lists are read first (they are those of the cluster \<open>c\<close> found at the start),
  then walked in this order; the backup is written to the scale-state file after the last
  loop.
\<close>

definition scale_down_listed :: "string list \<Rightarrow> bool \<Rightarrow> cluster \<Rightarrow> scale_backup run" where
  "scale_down_listed pvc_names dry c =
     then_do (for_each_acc (scale_down_deployment pvc_names dry) (deployments c) [])
       (\<lambda>b1. then_do (for_each_acc (scale_down_replicaset pvc_names dry) (replicasets c) b1)
       (\<lambda>b2. then_do (for_each_acc (scale_down_statefulset pvc_names dry) (statefulsets c) b2)
       (\<lambda>b3. then_do (for_each_acc (pause_daemonset pvc_names dry) (daemonsets c) b3)
       (\<lambda>b4. then_do (for_each_acc (suspend_cronjob pvc_names dry) (cronjobs c) b4)
       (\<lambda>b5. then_do (for_each_acc (delete_job pvc_names dry) (jobs c) b5)
       (\<lambda>replicas_backup w6.
          (Return replicas_backup,
           if \<not> dry then write_scale_file replicas_backup w6 else w6)))))))"

definition detect_and_scale_down :: "string \<Rightarrow> string list \<Rightarrow> bool \<Rightarrow> scale_backup run" where
  "detect_and_scale_down ns pvc_names dry w = scale_down_listed pvc_names dry (cluster w) w"

subsection \<open>Restoring the workloads\<close>

definition restore_scale ::
  "string \<Rightarrow> (string \<Rightarrow> py_value \<Rightarrow> cluster \<Rightarrow> exn + cluster) \<Rightarrow> bool \<Rightarrow> string \<Rightarrow> py_value \<Rightarrow> unit run" where
  "restore_scale kind patch_scale dry name v w =
     (let w1 = print (''[+] Restoring '' @ kind @ '' '' @ q name @ '' to replicas='' @ show_value v) w in
      if dry then
        (Return (), print (''[DRY-RUN] Would scale '' @ kind @ '' '' @ q name @ '' to '' @ show_value v) w1)
      else api_call (Patch_scale kind name v) (patch_scale name v) w1)"

text \<open>One entry \<^verbatim>\<open>uid, (kind, name, value)\<close> of the backup; an unknown kind is passed over.\<close>

definition restore_entry :: "bool \<Rightarrow> string \<times> string \<times> string \<times> py_value \<Rightarrow> unit run" where
  "restore_entry dry entry w =
     (case entry of (uid, kind, name, v) \<Rightarrow>
        if kind = ''Deployment'' then restore_scale ''Deployment'' cluster_patch_deployment_scale dry name v w
        else if kind = ''ReplicaSet'' then restore_scale ''ReplicaSet'' cluster_patch_replica_set_scale dry name v w
        else if kind = ''StatefulSet'' then restore_scale ''StatefulSet'' cluster_patch_stateful_set_scale dry name v w
        else if kind = ''DaemonSet'' then
          (let w1 = print (''[+] Unpausing DaemonSet '' @ q name @ '' (removing nodeSelector)'') w in
           if dry then (Return (), print (''[DRY-RUN] Would unpatch DaemonSet '' @ q name) w1)
           else api_call (Patch_daemon_set name None) (cluster_patch_daemon_set_selector name None) w1)
        else if kind = ''CronJob'' then
          (let w1 = print (''[+] Resuming CronJob '' @ q name @ ''...'') w in
           if dry then (Return (), print (''[DRY-RUN] Would resume CronJob '' @ q name) w1)
           else api_call (Patch_cron_job name False) (cluster_patch_cron_job name False) w1)
        else if kind = ''Job'' then
          (Return (), print (''[~] Job '' @ q name @ '' was deleted earlier and will not be resumed'') w)
        else (Return (), w))"

definition scale_back_up :: "string \<Rightarrow> bool \<Rightarrow> unit run" where
  "scale_back_up ns dry w =
     (case scale_track_file w of
        None \<Rightarrow> (Return (), print ''[!] No scale backup file found. Cannot restore replicas.'' w)
      | Some backups \<Rightarrow>
          then_do (for_each (restore_entry dry) backups)
            (\<lambda>_ w1. (Return (), if \<not> dry then remove_scale_file w1 else w1)) w)"

subsection \<open>The two phases\<close>

definition show_exn :: "exn \<Rightarrow> string" where
  "show_exn e =
     (case e of ApiException status \<Rightarrow> ''('' @ show_int status @ '')''
      | TypeError \<Rightarrow> ''TypeError'' | KeyError k \<Rightarrow> q k)"

text \<open>\<^verbatim>\<open>try: delete(name); print(done) except ApiException as e: print(failed, e)\<close>\<close>

definition try_delete_pvc :: "string \<Rightarrow> string \<Rightarrow> string \<Rightarrow> unit run" where
  "try_delete_pvc name done failed w =
     (case api_call (Delete_pvc name) (cluster_delete_pvc name) w of
        (Return u, w1) \<Rightarrow> (Return (), print done w1)
      | (Raise (ApiException status), w1) \<Rightarrow>
          (Return (), print (failed @ show_exn (ApiException status)) w1)
      | (Raise e, w1) \<Rightarrow> (Raise e, w1)
      | (Hang, w1) \<Rightarrow> (Hang, w1))"

definition migrate_to_temp :: "args \<Rightarrow> pvc \<Rightarrow> pivot_record list \<Rightarrow> (pivot_record list) run" where
  "migrate_to_temp a p metadata w =
     then_do (create_pvc (namespace a) (temp_name (pivot_of p)) (target_sc a) (pvc_storage p)
                (pvc_access_modes p) (dry_run a))
       (\<lambda>_. then_do (copy_data (namespace a) (pvc_name p) (temp_name (pivot_of p)) ''pivot1'' (dry_run a))
          (\<lambda>_ w2. (Return (metadata @ [pivot_of p]), w2))) w"

definition recreate_from_temp :: "args \<Rightarrow> pivot_record \<Rightarrow> unit run" where
  "recreate_from_temp a r w =
     then_do
       (if \<not> dry_run a
        then try_delete_pvc (old_name r) (''[x] Deleted original PVC '' @ q (old_name r))
               (''[!] Could not delete original PVC '' @ q (old_name r) @ '': '')
        else (\<lambda>w0. (Return (), w0)))
       (\<lambda>_. then_do (create_pvc (namespace a) (old_name r) (target_sc a) (rec_size r)
                       (rec_access_modes r) (dry_run a))
       (\<lambda>_. then_do (copy_data (namespace a) (temp_name r) (old_name r) ''pivot2'' (dry_run a))
       (\<lambda>_. if \<not> dry_run a
             then try_delete_pvc (temp_name r) (''[x] Deleted temp PVC '' @ q (temp_name r))
                    (''[!] Could not delete temp PVC '' @ q (temp_name r) @ '': '')
             else (\<lambda>w3. (Return (), w3))))) w"

definition main_safe :: "args \<Rightarrow> unit run" where
  "main_safe a w =
     (if \<not> recreate a then
        (let found = list_pvcs (namespace a) (origin_sc a) w in
         if found = [] then
           (Return (), print (''[!] No PVCs found in SC '' @ q (origin_sc a)) w)
         else
           then_do
             (if set_replica_0 a then
                (\<lambda>w0. then_do (detect_and_scale_down (namespace a) (map pvc_name found) (dry_run a))
                         (\<lambda>_ w1. (Return (), w1))
                         (print ''[=] Scaling workloads using these PVCs to 0 before starting...'' w0))
              else (\<lambda>w0. (Return (), w0)))
             (\<lambda>_. then_do (for_each_acc (migrate_to_temp a) found [])
                (\<lambda>metadata w2.
                   (Return (),
                    if \<not> dry_run a
                    then print ''[~] Phase 1 complete. Delete old PVCs and run with --recreate''
                           (write_metadata DEFAULT_METADATA_FILE metadata w2)
                    else w2))) w)
      else
        (case metadata_files w DEFAULT_METADATA_FILE of
           None \<Rightarrow> (Return (), print ''[!] No metadata found'' w)
         | Some records \<Rightarrow>
             then_do (for_each (recreate_from_temp a) records)
               (\<lambda>_. then_do (scale_back_up (namespace a) (dry_run a))
                  (\<lambda>_ w2. (Return (),
                     if \<not> dry_run a then remove_metadata DEFAULT_METADATA_FILE w2 else w2))) w))"

section \<open>\<^verbatim>\<open>moveStorage.py\<close>: migration to a new claim name\<close>

definition MANIFEST_DIR :: string where
  "MANIFEST_DIR = ''manifests''"

definition get_pvcs_by_storage_class :: "string \<Rightarrow> string \<Rightarrow> world \<Rightarrow> pvc list" where
  "get_pvcs_by_storage_class ns storage_class w =
     filter (\<lambda>p. pvc_storage_class p = Some storage_class) (pvcs (cluster w))"

text \<open>
  The search through the snapshot classes: the first class with deletion policy
  \<^verbatim>\<open>Delete\<close> whose driver contains the storage class name; reading the name of a class that
  has none raises a \<^verbatim>\<open>KeyError\<close>.
\<close>

fun find_snapshot_class :: "string \<Rightarrow> snapshot_class list \<Rightarrow> exn + string option" where
  "find_snapshot_class storage_class_name [] = Inr None"
| "find_snapshot_class storage_class_name (sc # scs) =
     (if sc_deletion_policy sc = Some ''Delete''
         \<and> contains storage_class_name (case sc_driver sc of None \<Rightarrow> [] | Some d \<Rightarrow> d)
      then (case sc_name sc of None \<Rightarrow> Inl (KeyError ''name'') | Some n \<Rightarrow> Inr (Some n))
      else find_snapshot_class storage_class_name scs)"

text \<open>Every exception of the probe is caught: it is reported and the result is \<^verbatim>\<open>None\<close>.\<close>

definition get_snapshot_class_for_storage_class :: "string \<Rightarrow> (string option) run" where
  "get_snapshot_class_for_storage_class storage_class_name w =
     (case snapshot_classes (cluster w) of
        None \<Rightarrow> (Return None, print (''[!] Snapshot detection failed: '' @ show_exn (ApiException 404)) w)
      | Some items \<Rightarrow>
          (case find_snapshot_class storage_class_name items of
             Inl e \<Rightarrow> (Return None, print (''[!] Snapshot detection failed: '' @ show_exn e) w)
           | Inr r \<Rightarrow> (Return r, w)))"

text \<open>
  The polling loop of the snapshot: \<open>Some True\<close> when a read shows \<^verbatim>\<open>readyToUse\<close>,
  \<open>Some False\<close> when a read has no \<^verbatim>\<open>status\<close> (a \<^verbatim>\<open>KeyError\<close>), \<open>None\<close> when it never ends.
\<close>

partial_function (option) wait_for_snapshot :: "(nat \<Rightarrow> snapshot_status) \<Rightarrow> nat \<Rightarrow> bool option" where
  "wait_for_snapshot status n =
     (if status n = No_status then Some False
      else if status n = Status (Some True) then Some True
      else wait_for_snapshot status (Suc n))"

declare wait_for_snapshot.simps [code]

definition report_add :: "(report \<Rightarrow> report) \<Rightarrow> world \<Rightarrow> world" where
  "report_add f w = w\<lparr>dry_run_report := f (dry_run_report w)\<rparr>"

definition create_volume_snapshot :: "string \<Rightarrow> string \<Rightarrow> string \<Rightarrow> bool \<Rightarrow> string run" where
  "create_volume_snapshot ns name snapshot_class_name dry w =
     (let snapshot_name = name @ ''-snap'' in
      if dry then
        (Return snapshot_name,
         report_add (\<lambda>r. r\<lparr>snapshots_used := snapshots_used r @ [snapshot_name]\<rparr>)
           (print (''[DRY-RUN] Would create VolumeSnapshot '' @ q snapshot_name @ '' for PVC '' @ q name
                     @ '' using class '' @ q snapshot_class_name) w))
      else
        then_do (api_call (Create_snapshot snapshot_name) (cluster_create_snapshot snapshot_name))
          (\<lambda>_ w1.
             let w2 = print (''[+] Created snapshot: '' @ snapshot_name) w1
             in case wait_for_snapshot (snapshot_status (cluster w2) snapshot_name) 0 of
                  None \<Rightarrow> (Hang, w2)
                | Some ready \<Rightarrow>
                    if ready then (Return snapshot_name, w2) else (Raise (KeyError ''status''), w2)) w)"

text \<open>The truth value of an optional string: \<^verbatim>\<open>None\<close> and the empty string are false.\<close>

definition truthy :: "string option \<Rightarrow> bool" where
  "truthy x = (case x of None \<Rightarrow> False | Some s \<Rightarrow> s \<noteq> [])"

definition clean_sc :: "string \<Rightarrow> string" where
  "clean_sc target_storage_class =
     map (\<lambda>c. if c = CHR ''_'' then CHR ''-'' else c) (lower target_storage_class)"

definition create_new_pvc :: "pvc \<Rightarrow> string \<Rightarrow> string \<Rightarrow> bool \<Rightarrow> string option \<Rightarrow> string run" where
  "create_new_pvc old_pvc target_storage_class ns dry snapshot_name w =
     (let new_pvc_name = pvc_name old_pvc @ ''-'' @ clean_sc target_storage_class in
      if dry then
        (Return new_pvc_name,
         report_add (\<lambda>r. r\<lparr>new_pvcs := new_pvcs r @ [new_pvc_name]\<rparr>)
           (print (''[DRY-RUN] Would create new PVC: '' @ new_pvc_name @ '' with storageClass ''
                     @ q target_storage_class) w))
      else
        (let body = \<lparr>pvc_name = new_pvc_name, pvc_storage_class = Some target_storage_class,
                      pvc_storage = pvc_storage old_pvc, pvc_access_modes = pvc_access_modes old_pvc,
                      pvc_data_source = (if truthy snapshot_name then snapshot_name else None)\<rparr>
         in then_do (api_call (Create_pvc body) (cluster_create_pvc body))
              (\<lambda>_ w1. (Return new_pvc_name, print (''[+] Created new PVC: '' @ new_pvc_name) w1)) w))"

definition create_pivot_pod :: "string \<Rightarrow> string \<Rightarrow> string \<Rightarrow> bool \<Rightarrow> unit run" where
  "create_pivot_pod ns source_pvc target_pvc dry w =
     (let pod_name = pivot_copy_pod_name source_pvc in
      if dry then
        (Return (),
         report_add (\<lambda>r. r\<lparr>pivot_pods := pivot_pods r @ [pod_name]\<rparr>)
           (print (''[DRY-RUN] Would create pivot pod '' @ q pod_name @ '' to copy data from ''
                     @ q source_pvc @ '' to '' @ q target_pvc) w))
      else
        then_do (api_call (Create_pod pod_name)
                   (cluster_create_pod (copy_pod pod_name
                      ''apk add --no-cache rsync && rsync -a /old/ /new/ && sleep 2''
                      ''source'' ''target'' source_pvc target_pvc)))
          (\<lambda>_ w1.
             let w2 = print (''[~] Pivot pod '' @ q pod_name @ '' created. Waiting for copy to finish...'') w1
             in case wait_for_pod (pod_status (cluster w2) pod_name) 0 of
                  None \<Rightarrow> (Hang, w2)
                | Some phase \<Rightarrow>
                    api_call (Delete_pod pod_name) (cluster_delete_pod pod_name)
                      (print (''[OK] Pivot pod finished with status: '' @ show_phase phase) w2)) w)"

subsection \<open>Exporting the manifest of a standalone pod\<close>

definition post_script_lines :: "string \<Rightarrow> string \<Rightarrow> string list" where
  "post_script_lines name ns =
     [''echo '' @ q (''Deleting old pod: '' @ name),
      ''kubectl delete pod '' @ name @ '' -n '' @ ns @ '' --ignore-not-found=true'',
      ''echo '' @ q (''Applying pod: '' @ name),
      ''kubectl apply -f '' @ name @ ''.yaml -n '' @ ns, []]"

text \<open>
  The volumes kept are those with a claim, except projected \<^verbatim>\<open>kube-api-access\<close> volumes;
  each is pointed at the new claim, and a container keeps only the mounts of kept volumes.
\<close>

definition kept_volumes :: "pod \<Rightarrow> volume list" where
  "kept_volumes p =
     filter (\<lambda>vol. \<not> (vol_projected vol \<and> startswith (vol_name vol) ''kube-api-access'')
                    \<and> vol_claim vol \<noteq> None) (pod_volumes p)"

definition export_pod_manifest :: "string \<Rightarrow> pod \<Rightarrow> string \<Rightarrow> world \<Rightarrow> world" where
  "export_pod_manifest ns p new_pvc_name w =
     (let valid_volume_names = map vol_name (kept_volumes p);
          manifest = \<lparr>m_name = pod_name p, m_namespace = ns,
                      m_volumes = map (\<lambda>vol. (vol_name vol, new_pvc_name)) (kept_volumes p),
                      m_containers =
                        map (\<lambda>c. c\<lparr>c_volume_mounts :=
                                      filter (\<lambda>m. snd m \<in> set valid_volume_names) (c_volume_mounts c)\<rparr>)
                          (pod_containers p)\<rparr>;
          path = MANIFEST_DIR @ ''/'' @ pod_name p @ ''.yaml''
      in report_add (\<lambda>r. r\<lparr>pod_manifests := pod_manifests r @ [path]\<rparr>)
           (w\<lparr>manifest_files := filter (\<lambda>f. fst f \<noteq> path) (manifest_files w) @ [(path, manifest)],
              post_script := post_script w @ post_script_lines (pod_name p) ns,
              trace := trace w @ [Write_file path]\<rparr>))"

subsection \<open>Patching the workloads that use a claim\<close>

definition show_opt :: "string option \<Rightarrow> string" where
  "show_opt x = (case x of None \<Rightarrow> ''None'' | Some s \<Rightarrow> s)"

text \<open>
  The loop over the claim templates of a StatefulSet. \<open>x\<close> is the local object, which the
  loop modifies and sends whole with each patch; \<open>walked\<close> are the templates already
  walked, the list argument the ones still to walk.
\<close>

fun patch_templates ::
  "string option \<Rightarrow> string \<Rightarrow> bool \<Rightarrow> workload \<Rightarrow> claim_template list \<Rightarrow> claim_template list \<Rightarrow> bool
     \<Rightarrow> (workload \<times> bool) run" where
  "patch_templates old_sc new_pvc_name dry x walked [] updated w = (Return (x, updated), w)"
| "patch_templates old_sc new_pvc_name dry x walked (vct # vcts) updated w =
     (if vct_storage_class vct = old_sc then
        (if dry then
           patch_templates old_sc new_pvc_name dry x (walked @ [vct]) vcts True
             (report_add (\<lambda>r. r\<lparr>workloads_patched := workloads_patched r @ [''StatefulSet:'' @ w_name x]\<rparr>)
                (print (''[DRY-RUN] Would patch StatefulSet '' @ q (w_name x) @ '' volumeClaimTemplate ''
                          @ q (vct_name vct) @ '' from '' @ q (show_opt old_sc)
                          @ '' to the new StorageClass.'') w))
         else
           (case api_call (Patch_workload ''StatefulSet'' (w_name x))
                   (cluster_patch_workload ''StatefulSet'' (w_name x)
                      (x\<lparr>w_claim_templates :=
                           walked @ [vct\<lparr>vct_storage_class := Some new_pvc_name\<rparr>] @ vcts\<rparr>)) w of
              (Return u, w1) \<Rightarrow>
                patch_templates old_sc new_pvc_name dry
                  (x\<lparr>w_claim_templates :=
                       walked @ [vct\<lparr>vct_storage_class := Some new_pvc_name\<rparr>] @ vcts\<rparr>)
                  (walked @ [vct\<lparr>vct_storage_class := Some new_pvc_name\<rparr>]) vcts True
                  (print (''[~] Patched StatefulSet '' @ q (w_name x) @ '' volumeClaimTemplate from ''
                            @ q (show_opt old_sc) @ '' to '' @ q new_pvc_name @ ''.'') w1)
            | (Raise e, w1) \<Rightarrow> (Raise e, w1)
            | (Hang, w1) \<Rightarrow> (Hang, w1)))
      else patch_templates old_sc new_pvc_name dry x (walked @ [vct]) vcts updated w)"

text \<open>The loop over the volumes of the pod template, for the three kinds.\<close>

fun patch_volumes ::
  "string \<Rightarrow> string \<Rightarrow> string \<Rightarrow> bool \<Rightarrow> workload \<Rightarrow> volume list \<Rightarrow> volume list \<Rightarrow> bool
     \<Rightarrow> (workload \<times> bool) run" where
  "patch_volumes kind old_pvc_name new_pvc_name dry x walked [] updated w = (Return (x, updated), w)"
| "patch_volumes kind old_pvc_name new_pvc_name dry x walked (vol # vols) updated w =
     (if vol_claim vol = Some old_pvc_name then
        (if dry then
           patch_volumes kind old_pvc_name new_pvc_name dry x (walked @ [vol]) vols True
             (report_add (\<lambda>r. r\<lparr>workloads_patched := workloads_patched r @ [kind @ '':'' @ w_name x]\<rparr>)
                (print (''[DRY-RUN] Would patch '' @ kind @ '': '' @ w_name x @ '' to use PVC ''
                          @ q new_pvc_name) w))
         else
           (case api_call (Patch_workload kind (w_name x))
                   (cluster_patch_workload kind (w_name x)
                      (x\<lparr>w_volumes := walked @ [vol\<lparr>vol_claim := Some new_pvc_name\<rparr>] @ vols\<rparr>)) w of
              (Return u, w1) \<Rightarrow>
                patch_volumes kind old_pvc_name new_pvc_name dry
                  (x\<lparr>w_volumes := walked @ [vol\<lparr>vol_claim := Some new_pvc_name\<rparr>] @ vols\<rparr>)
                  (walked @ [vol\<lparr>vol_claim := Some new_pvc_name\<rparr>]) vols True
                  (print (''[~] Patched '' @ kind @ '': '' @ w_name x) w1)
            | (Raise e, w1) \<Rightarrow> (Raise e, w1)
            | (Hang, w1) \<Rightarrow> (Hang, w1)))
      else patch_volumes kind old_pvc_name new_pvc_name dry x (walked @ [vol]) vols updated w)"

text \<open>One workload of one kind; \<open>found\<close> becomes true when something of it was (or would be) patched.\<close>

definition patch_one_workload :: "string \<Rightarrow> pvc \<Rightarrow> string \<Rightarrow> bool \<Rightarrow> workload \<Rightarrow> bool \<Rightarrow> bool run" where
  "patch_one_workload kind old_pvc new_pvc_name dry workload found w =
     (if kind = ''StatefulSet'' then
        then_do (patch_templates (pvc_storage_class old_pvc) new_pvc_name dry workload []
                   (w_claim_templates workload) False)
          (\<lambda>xu. then_do (patch_volumes kind (pvc_name old_pvc) new_pvc_name dry (fst xu) []
                           (w_volumes (fst xu)) (snd xu))
             (\<lambda>xu' w2. (Return (found \<or> snd xu'), w2))) w
      else
        then_do (patch_volumes kind (pvc_name old_pvc) new_pvc_name dry workload []
                   (w_volumes workload) False)
          (\<lambda>xu' w2. (Return (found \<or> snd xu'), w2)) w)"

text \<open>A pod without a controlling owner that mounts the old claim: reported, exported on request.\<close>

definition check_standalone_pod :: "string \<Rightarrow> string \<Rightarrow> string \<Rightarrow> bool \<Rightarrow> bool \<Rightarrow> pod \<Rightarrow> bool \<Rightarrow> bool run" where
  "check_standalone_pod ns old_pvc_name new_pvc_name dry export p found w =
     (if pod_controlled p then (Return found, w)
      else if list_ex (\<lambda>vol. vol_claim vol = Some old_pvc_name) (pod_volumes p) then
        (let w1 = (if dry then
                     report_add (\<lambda>r. r\<lparr>workloads_patched := workloads_patched r @ [''Pod:'' @ pod_name p]\<rparr>)
                       (print (''[DRY-RUN] Standalone Pod '' @ q (pod_name p) @ '' uses PVC '' @ q old_pvc_name
                                 @ '' - manual redeployment needed.'') w)
                   else
                     print (''[!] Standalone Pod '' @ q (pod_name p) @ '' uses PVC '' @ q old_pvc_name
                              @ '', but cannot be live-patched. Manual re-apply required.'') w)
         in (Return True, if export then export_pod_manifest ns p new_pvc_name w1 else w1))
      else (Return found, w))"

definition patch_workload_using_pvc :: "string \<Rightarrow> pvc \<Rightarrow> string \<Rightarrow> bool \<Rightarrow> bool \<Rightarrow> unit run" where
  "patch_workload_using_pvc ns old_pvc new_pvc_name dry export w =
     then_do (\<lambda>w0. for_each_acc (patch_one_workload ''Deployment'' old_pvc new_pvc_name dry)
                      (deployments (cluster w0)) False w0)
       (\<lambda>f1. then_do (\<lambda>w1. for_each_acc (patch_one_workload ''StatefulSet'' old_pvc new_pvc_name dry)
                              (statefulsets (cluster w1)) f1 w1)
       (\<lambda>f2. then_do (\<lambda>w2. for_each_acc (patch_one_workload ''DaemonSet'' old_pvc new_pvc_name dry)
                              (daemonsets (cluster w2)) f2 w2)
       (\<lambda>f3. then_do (\<lambda>w3. for_each_acc
                              (check_standalone_pod ns (pvc_name old_pvc) new_pvc_name dry export)
                              (pods (cluster w3)) f3 w3)
       (\<lambda>found w4.
          (Return (),
           if \<not> found
           then print (''[!] Warning: No workload found referencing PVC '' @ q (pvc_name old_pvc)
                         @ '' or StorageClass '' @ q (show_opt (pvc_storage_class old_pvc))) w4
           else w4))))) w"

definition delete_old_pvc :: "string \<Rightarrow> string \<Rightarrow> bool \<Rightarrow> bool \<Rightarrow> unit run" where
  "delete_old_pvc ns name dry delete_enabled w =
     (if \<not> delete_enabled then
        (Return (), print (''[SKIPPED] PVC deletion disabled for '' @ q name
                            @ '' (use --delete-pvc to enable)'') w)
      else if dry then
        (Return (),
         report_add (\<lambda>r. r\<lparr>pvcs_deleted := pvcs_deleted r @ [name]\<rparr>)
           (print (''[DRY-RUN] Would delete old PVC: '' @ name) w))
      else
        then_do (api_call (Delete_pvc name) (cluster_delete_pvc name))
          (\<lambda>_ w1. (Return (), print (''[x] Deleted old PVC: '' @ name) w1)) w)"

subsection \<open>The migration of one claim, and the run\<close>

text \<open>The choice of the snapshot: \<open>None\<close> unless a snapshot is preferred and a class is found.\<close>

definition take_snapshot :: "args \<Rightarrow> pvc \<Rightarrow> (string option) run" where
  "take_snapshot a p w =
     (if prefer_snapshot a then
        then_do (get_snapshot_class_for_storage_class (origin_sc a))
          (\<lambda>snapshot_class w1.
             if truthy snapshot_class then
               then_do (create_volume_snapshot (namespace a) (pvc_name p) (show_opt snapshot_class) (dry_run a))
                 (\<lambda>snapshot_name w2. (Return (Some snapshot_name), w2))
                 (print (''[~] Detected snapshot class '' @ q (show_opt snapshot_class)
                           @ ''. Creating snapshot.'') w1)
             else
               (Return None, print ''[!] No usable snapshot class found. Falling back to pivot copy.'' w1)) w
      else (Return None, w))"

definition migrate_pvc :: "args \<Rightarrow> pvc \<Rightarrow> unit run" where
  "migrate_pvc a p w =
     then_do (take_snapshot a p)
       (\<lambda>snapshot_name.
          then_do (create_new_pvc p (target_sc a) (namespace a) (dry_run a) snapshot_name)
            (\<lambda>new_pvc_name.
               then_do (if \<not> truthy snapshot_name
                        then create_pivot_pod (namespace a) (pvc_name p) new_pvc_name (dry_run a)
                        else (\<lambda>w3. (Return (), w3)))
                 (\<lambda>_ w4.
                    if copy_only a then
                      (Return (), print ''[~] Skipping workload patching and PVC deletion due to --copy-only.'' w4)
                    else
                      then_do (patch_workload_using_pvc (namespace a) p new_pvc_name (dry_run a) (export_pods a))
                        (\<lambda>_. delete_old_pvc (namespace a) (pvc_name p) (dry_run a) (delete_pvc a)) w4)))
       (report_add (\<lambda>r. r\<lparr>pvcs_found := pvcs_found r @ [pvc_name p]\<rparr>)
          (print ([CHR 0x0A] @ ''[>] Migrating PVC: '' @ pvc_name p) w))"

definition summary :: "args \<Rightarrow> world \<Rightarrow> world" where
  "summary a w =
     (let r = dry_run_report w in
      if dry_run a then
        print ([CHR 0x0A] @ ''[!] To apply new pods:'' @ [CHR 0x0A] @ ''  cd '' @ MANIFEST_DIR
                 @ '' && chmod +x post-migrate.sh && ./post-migrate.sh'')
          ((if copy_only a
            then print ([CHR 0x0A] @ ''[!] NOTE: --copy-only was set. No workloads were patched or PVCs deleted.'')
            else (\<lambda>w'. w'))
             (print ''====== END OF DRY-RUN ======''
             (print (''Pod manifests exported: '' @ show_nat (length (pod_manifests r)))
             (print (''PVCs to delete:         '' @ show_nat (length (pvcs_deleted r)))
             (print (''Workloads to patch:     '' @ show_nat (length (workloads_patched r)))
             (print (''Pivot pods to launch:   '' @ show_nat (length (pivot_pods r)))
             (print (''Snapshots to create:    '' @ show_nat (length (snapshots_used r)))
             (print (''New PVCs to create:     '' @ show_nat (length (new_pvcs r)))
             (print (''PVCs found:             '' @ show_nat (length (pvcs_found r)))
             (print ([CHR 0x0A] @ ''====== DRY-RUN SUMMARY ======'') w))))))))))
      else print ([CHR 0x0A] @ ''[OK] Migration completed successfully.'') w)"

text \<open>
  Loading the module creates the post-migration script with its two header lines and an
  empty report; \<^verbatim>\<open>main\<close> then scans the claims of the origin class. Here \<open>origin_sc\<close> and
  \<open>target_sc\<close> stand for the arguments \<^verbatim>\<open>origin\<close> and \<^verbatim>\<open>target\<close>.
\<close>

definition load_module :: "world \<Rightarrow> world" where
  "load_module w =
     w\<lparr>post_script := [''#!/bin/bash'', ''echo '' @ q ''[INFO] Running post-migration script'', []],
       dry_run_report := \<lparr>pvcs_found = [], new_pvcs = [], pivot_pods = [], snapshots_used = [],
                          workloads_patched = [], pvcs_deleted = [], pod_manifests = []\<rparr>\<rparr>"

definition main_move :: "args \<Rightarrow> unit run" where
  "main_move a w0 =
     (let w = print (''[=] Scanning for PVCs in storage class '' @ q (origin_sc a) @ '' in namespace ''
                       @ q (namespace a)) (load_module w0);
          found = get_pvcs_by_storage_class (namespace a) (origin_sc a) w
      in if found = [] then
           (Return (), print (''[!] No PVCs found with the specified origin storage class ''
                               @ q (origin_sc a) @ ''. Nothing to do.'') w)
         else
           then_do (for_each (migrate_pvc a) found) (\<lambda>_ w1. (Return (), summary a w1)) w)"

section \<open>Notions used in the properties\<close>

text \<open>The calls to the cluster among the events of a trace (the rest are file operations).\<close>

definition is_api_call :: "event \<Rightarrow> bool" where
  "is_api_call e = (case e of Write_file f \<Rightarrow> False | Remove_file f \<Rightarrow> False | _ \<Rightarrow> True)"

definition api_calls :: "event list \<Rightarrow> event list" where
  "api_calls t = filter is_api_call t"

text \<open>
  \<open>keeps w w'\<close>: from \<open>w\<close> to \<open>w'\<close> the cluster is the same and no call was issued;
  a run is \<open>quiet\<close> when this holds from every start to its end, however it ends.
\<close>

definition keeps :: "world \<Rightarrow> world \<Rightarrow> bool" where
  "keeps w w' = (cluster w' = cluster w \<and> api_calls (trace w') = api_calls (trace w))"

definition quiet :: "'a run \<Rightarrow> bool" where
  "quiet m = (\<forall>w. keeps w (snd (m w)))"

text \<open>
  Relations between the world at the start of a piece of a run and the world at its end
  that hold step by step: \<open>frame_rel R\<close> says that \<open>R\<close> is reflexive and transitive, and a
  run \<open>stays R\<close> when its end is related to its start, however it ends.
\<close>

definition frame_rel :: "(world \<Rightarrow> world \<Rightarrow> bool) \<Rightarrow> bool" where
  "frame_rel R = ((\<forall>w. R w w) \<and> (\<forall>a b c. R a b \<longrightarrow> R b c \<longrightarrow> R a c))"

definition stays :: "(world \<Rightarrow> world \<Rightarrow> bool) \<Rightarrow> 'a run \<Rightarrow> bool" where
  "stays R m = (\<forall>w. R w (snd (m w)))"

text \<open>
  The events a run added to the trace, and the relation "only calls to the cluster were
  added, and the scale-state file is as it was".
\<close>

definition new_events :: "world \<Rightarrow> world \<Rightarrow> event list" where
  "new_events w w' = drop (length (trace w)) (trace w')"

definition only_calls :: "world \<Rightarrow> world \<Rightarrow> bool" where
  "only_calls w w' =
     (trace w' = trace w @ new_events w w' \<and> list_all is_api_call (new_events w w')
      \<and> scale_track_file w' = scale_track_file w)"

text \<open>What a run that ends with the write of the backup looks like.\<close>

definition written_last :: "scale_backup run \<Rightarrow> bool" where
  "written_last m =
     (\<forall>w. case m w of
            (Return b, w') \<Rightarrow>
              trace w' = trace w @ new_events w w' \<and> new_events w w' \<noteq> []
              \<and> last (new_events w w') = Write_file SCALE_TRACK_FILE
              \<and> list_all is_api_call (butlast (new_events w w'))
              \<and> scale_track_file w' = Some b
          | (r, w') \<Rightarrow> only_calls w w')"

subsection \<open>An example namespace\<close>

definition data_pvc :: pvc where
  "data_pvc =
     \<lparr>pvc_name = ''data-pvc'', pvc_storage_class = Some ''local-path'', pvc_storage = ''10Gi'',
      pvc_access_modes = [''ReadWriteOnce''], pvc_data_source = None\<rparr>"

definition data_volume :: volume where
  "data_volume = \<lparr>vol_name = ''data'', vol_claim = Some ''data-pvc'', vol_projected = False\<rparr>"

definition plain_workload :: "string \<Rightarrow> string \<Rightarrow> int option \<Rightarrow> volume list \<Rightarrow> workload" where
  "plain_workload name uid n vols =
     \<lparr>w_name = name, w_uid = uid, w_replicas = n, w_volumes = vols, w_claim_templates = [],
      w_node_selector = None, w_suspend = False\<rparr>"

definition toolbox_pod :: pod where
  "toolbox_pod =
     \<lparr>pod_name = ''toolbox'', pod_controlled = False,
      pod_volumes = [data_volume,
                     \<lparr>vol_name = ''kube-api-access-x7k2p'', vol_claim = None, vol_projected = True\<rparr>],
      pod_containers = [\<lparr>c_name = ''sh'', c_image = ''busybox'', c_command = [''sleep'', ''3600''],
                         c_args = [], c_ports = [],
                         c_volume_mounts = [(''/data'', ''data''),
                                            (''/var/run/secrets'', ''kube-api-access-x7k2p'')]\<rparr>]\<rparr>"

definition empty_report :: report where
  "empty_report =
     \<lparr>pvcs_found = [], new_pvcs = [], pivot_pods = [], snapshots_used = [],
      workloads_patched = [], pvcs_deleted = [], pod_manifests = []\<rparr>"

text \<open>
  One claim \<^verbatim>\<open>data-pvc\<close> of 10Gi in the class \<^verbatim>\<open>local-path\<close>, used by a Deployment of 3
  replicas, a StatefulSet of 2 (through a claim template), a CronJob, a Job and a
  standalone pod; copy pods succeed at the second read, snapshots are ready at once.
\<close>

definition demo_cluster :: cluster where
  "demo_cluster =
     \<lparr>pvcs = [data_pvc],
      pods = [toolbox_pod],
      pod_status = (\<lambda>name n. if n = 0 then Running else Succeeded),
      deployments = [plain_workload ''web'' ''uid-web'' (Some 3) [data_volume]],
      replicasets = [],
      statefulsets = [(plain_workload ''db'' ''uid-db'' (Some 2) [data_volume])
                        \<lparr>w_claim_templates := [\<lparr>vct_name = ''store'', vct_storage_class = Some ''local-path''\<rparr>]\<rparr>],
      daemonsets = [],
      cronjobs = [plain_workload ''nightly'' ''uid-nightly'' None [data_volume]],
      jobs = [plain_workload ''import'' ''uid-import'' None [data_volume]],
      snapshot_classes = Some [\<lparr>sc_name = Some ''local-snap'', sc_deletion_policy = Some ''Delete'',
                                sc_driver = Some ''rancher.io/local-path''\<rparr>],
      snapshots = [],
      snapshot_status = (\<lambda>name n. Status (Some True))\<rparr>"

definition demo_world :: world where
  "demo_world =
     \<lparr>cluster = demo_cluster, metadata_files = Map.empty, scale_track_file = None,
      manifest_files = [], post_script = [], dry_run_report = empty_report,
      printed = [], trace = []\<rparr>"

definition demo_args :: args where
  "demo_args =
     \<lparr>origin_sc = ''local-path'', target_sc = ''netapp'', namespace = ''prod'', recreate = False,
      metadata_file = DEFAULT_METADATA_FILE, dry_run = False, preserve_temp = False,
      set_replica_0 = False, prefer_snapshot = False, export_pods = False, delete_pvc = False,
      copy_only = False\<rparr>"

text \<open>The same namespace with a second Deployment whose replica count is not set.\<close>

definition unscaled_world :: world where
  "unscaled_world =
     demo_world\<lparr>cluster := demo_cluster\<lparr>deployments :=
       deployments demo_cluster @ [plain_workload ''api'' ''uid-api'' None [data_volume]]\<rparr>\<rparr>"

text \<open>
  The example namespace with an empty ledger file and a scale-state file that records 5
  replicas for the Deployment; and with a VolumeSnapshot \<^verbatim>\<open>data-pvc-snap\<close> left behind.
\<close>

definition empty_ledger_world :: world where
  "empty_ledger_world =
     demo_world\<lparr>metadata_files := [DEFAULT_METADATA_FILE \<mapsto> []],
                 scale_track_file := Some [(''uid-web'', ''Deployment'', ''web'', VInt 5)]\<rparr>"

definition leftover_snapshot_world :: world where
  "leftover_snapshot_world = demo_world\<lparr>cluster := demo_cluster\<lparr>snapshots := [''data-pvc-snap'']\<rparr>\<rparr>"

section \<open>Properties\<close>

subsection \<open>Relations that hold step by step\<close>

lemma frame_relD: "frame_rel R \<Longrightarrow> R w w" "frame_rel R \<Longrightarrow> R a b \<Longrightarrow> R b c \<Longrightarrow> R a c"
  unfolding frame_rel_def by blast+

lemma staysI: "(\<And>w. R w (snd (m w))) \<Longrightarrow> stays R m"
  by (simp add: stays_def)

lemma staysD: "stays R m \<Longrightarrow> R w (snd (m w))"
  by (simp add: stays_def)

lemma stays_after: "frame_rel R \<Longrightarrow> stays R m \<Longrightarrow> R w w' \<Longrightarrow> R w (snd (m w'))"
  using frame_relD(2) staysD by metis

lemma stays_then_do:
  assumes R: "frame_rel R" and m: "stays R m" and f: "\<And>x. stays R (f x)"
  shows "stays R (then_do m f)"
proof (rule staysI)
  fix w
  obtain r w' where e: "m w = (r, w')" by (cases "m w")
  with staysD [OF m, of w] have k: "R w w'" by simp
  show "R w (snd (then_do m f w))"
    using e k stays_after [OF R f k] by (cases r) (simp_all add: then_do_def)
qed

lemma stays_then_do_after:
  "frame_rel R \<Longrightarrow> stays R m \<Longrightarrow> (\<And>x. stays R (f x)) \<Longrightarrow> (\<And>w. R w (g w))
   \<Longrightarrow> stays R (\<lambda>w. then_do m f (g w))"
  by (rule staysI) (rule stays_after [OF _ stays_then_do])

lemma stays_if: "(c \<Longrightarrow> stays R m) \<Longrightarrow> (\<not> c \<Longrightarrow> stays R n) \<Longrightarrow> stays R (\<lambda>w. if c then m w else n w)"
  by (cases c) (simp_all add: stays_def)

lemma stays_if': "(c \<Longrightarrow> stays R m) \<Longrightarrow> (\<not> c \<Longrightarrow> stays R n) \<Longrightarrow> stays R (if c then m else n)"
  by (cases c) simp_all

lemma stays_pure: "(\<And>w. R w (g w)) \<Longrightarrow> stays R (\<lambda>w. (r, g w))"
  by (simp add: stays_def)

lemma stays_ret: "frame_rel R \<Longrightarrow> stays R (\<lambda>w. (r, w))"
  by (simp add: stays_def frame_relD)

lemma stays_for_each_acc:
  assumes R: "frame_rel R" and b: "\<And>x acc. stays R (body x acc)"
  shows "stays R (for_each_acc body xs acc)"
proof (induction xs arbitrary: acc)
  case Nil
  show ?case by (simp add: stays_def frame_relD [OF R])
next
  case (Cons x xs)
  show ?case
  proof (rule staysI)
    fix w
    obtain r' w' where e: "body x acc w = (r', w')" by (cases "body x acc w")
    have "R w (snd (body x acc w))" by (rule staysD [OF b])
    with e have k: "R w w'" by simp
    show "R w (snd (for_each_acc body (x # xs) acc w))"
      using e k stays_after [OF R Cons.IH k] by (cases r') simp_all
  qed
qed

lemma stays_for_each:
  assumes R: "frame_rel R" and b: "\<And>x. stays R (body x)"
  shows "stays R (for_each body xs)"
proof (induction xs)
  case Nil
  show ?case by (simp add: stays_def frame_relD [OF R])
next
  case (Cons x xs)
  show ?case
  proof (rule staysI)
    fix w
    obtain r' w' where e: "body x w = (r', w')" by (cases "body x w")
    have "R w (snd (body x w))" by (rule staysD [OF b])
    with e have k: "R w w'" by simp
    show "R w (snd (for_each body (x # xs) w))"
      using e k stays_after [OF R Cons.IH k] by (cases r') simp_all
  qed
qed

lemmas stays_intros = stays_then_do_after stays_then_do stays_if stays_if' stays_pure stays_ret
  stays_for_each stays_for_each_acc

subsection \<open>Names of the copy pods\<close>

text \<open>
  C10. The name of the copy pod is determined by the phase prefix and the first 20
  characters of the (in the safe variant: sanitized) source volume name, in all three
  scripts; so two distinct source names that agree on those 20 characters get the same
  pod name within one phase: the derivation is not injective.
\<close>

theorem pod_name_not_injective:
  "(\<forall>prefix a b. take 20 (sanitized a) = take 20 (sanitized b)
       \<longrightarrow> sanitize_pod_name a prefix = sanitize_pod_name b prefix)
   \<and> (\<forall>prefix a b. take 20 a = take 20 b
       \<longrightarrow> pivot_pod_name prefix a = pivot_pod_name prefix b
           \<and> pivot_copy_pod_name a = pivot_copy_pod_name b)
   \<and> (\<exists>a b. a \<noteq> b
       \<and> take 20 (sanitized a) = take 20 (sanitized b)
       \<and> sanitize_pod_name a ''pivot1'' = sanitize_pod_name b ''pivot1''
       \<and> pivot_pod_name ''pivot1'' a = pivot_pod_name ''pivot1'' b
       \<and> pivot_copy_pod_name a = pivot_copy_pod_name b)"
proof (intro conjI allI impI)
  fix prefix a b
  assume "take 20 (sanitized a) = take 20 (sanitized b)"
  then show "sanitize_pod_name a prefix = sanitize_pod_name b prefix"
    by (simp add: sanitize_pod_name_def)
next
  fix prefix a b :: string
  assume "take 20 a = take 20 b"
  then show "pivot_pod_name prefix a = pivot_pod_name prefix b"
    by (simp add: pivot_pod_name_def)
next
  fix a b :: string
  assume "take 20 a = take 20 b"
  then show "pivot_copy_pod_name a = pivot_copy_pod_name b"
    by (simp add: pivot_copy_pod_name_def)
next
  let ?a = "''postgres-data-volume-claim-0''" and ?b = "''postgres-data-volume-claim-1''"
  have "?a \<noteq> ?b" by simp
  moreover have "take 20 (sanitized ?a) = take 20 (sanitized ?b)"
    by (simp add: sanitized_def lower_def lower_char_def keep_char_def)
  moreover have "sanitize_pod_name ?a ''pivot1'' = sanitize_pod_name ?b ''pivot1''"
    using calculation(2) by (simp only: sanitize_pod_name_def)
  moreover have "pivot_pod_name ''pivot1'' ?a = pivot_pod_name ''pivot1'' ?b"
    by (simp add: pivot_pod_name_def)
  moreover have "pivot_copy_pod_name ?a = pivot_copy_pod_name ?b"
    by (simp add: pivot_copy_pod_name_def)
  ultimately show "\<exists>a b. a \<noteq> b
       \<and> take 20 (sanitized a) = take 20 (sanitized b)
       \<and> sanitize_pod_name a ''pivot1'' = sanitize_pod_name b ''pivot1''
       \<and> pivot_pod_name ''pivot1'' a = pivot_pod_name ''pivot1'' b
       \<and> pivot_copy_pod_name a = pivot_copy_pod_name b"
    by (intro exI [of _ ?a] exI [of _ ?b]) (simp only: simp_thms)
qed

theorem pod_name_not_injective_witness:
  "''Data_Volume-For.Postgres-0'' \<noteq> ''datavolume-forpostgres-1''
   \<and> sanitize_pod_name ''Data_Volume-For.Postgres-0'' ''pivot2''
       = sanitize_pod_name ''datavolume-forpostgres-1'' ''pivot2''
   \<and> sanitize_pod_name ''Data_Volume-For.Postgres-0'' ''pivot2'' = ''pivot2-datavolume-forpostgr''
   \<and> pivot_pod_name ''pivot2'' ''data-volume-forpostgres-0''
       = pivot_pod_name ''pivot2'' ''data-volume-forpostgres-1''"
proof -
  have p: "take 20 (sanitized ''Data_Volume-For.Postgres-0'')
             = take 20 (sanitized ''datavolume-forpostgres-1'')"
    by code_simp
  have q: "take 20 ''data-volume-forpostgres-0'' = take 20 ''data-volume-forpostgres-1''"
    by simp
  from pod_name_not_injective [THEN conjunct1, rule_format, OF p]
  have "sanitize_pod_name ''Data_Volume-For.Postgres-0'' ''pivot2''
          = sanitize_pod_name ''datavolume-forpostgres-1'' ''pivot2''"
    .
  moreover from pod_name_not_injective [THEN conjunct2, THEN conjunct1, rule_format, OF q]
  have "pivot_pod_name ''pivot2'' ''data-volume-forpostgres-0''
          = pivot_pod_name ''pivot2'' ''data-volume-forpostgres-1''"
    by (rule conjunct1)
  moreover have "sanitize_pod_name ''Data_Volume-For.Postgres-0'' ''pivot2''
                   = ''pivot2-datavolume-forpostgr''"
    by code_simp
  ultimately show ?thesis by simp
qed

subsection \<open>Runs that leave the cluster alone\<close>

lemma keeps_refl [simp]: "keeps w w"
  by (simp add: keeps_def)

lemma keeps_trans: "keeps w w' \<Longrightarrow> keeps w' w'' \<Longrightarrow> keeps w w''"
  by (simp add: keeps_def)

lemma keeps_print [simp]: "keeps w (print msg w') = keeps w w'"
  by (simp add: keeps_def print_def)

lemma keeps_report_add [simp]: "keeps w (report_add f w') = keeps w w'"
  by (simp add: keeps_def report_add_def)

lemma keeps_export [simp]: "keeps w (export_pod_manifest ns p n w') = keeps w w'"
  by (simp add: keeps_def export_pod_manifest_def Let_def report_add_def api_calls_def
      is_api_call_def)

lemma keeps_load_module [simp]: "keeps w (load_module w') = keeps w w'"
  by (simp add: keeps_def load_module_def)

lemma keeps_summary [simp]: "keeps w (summary a w') = keeps w w'"
  by (simp add: summary_def Let_def)

lemma frame_keeps [simp]: "frame_rel keeps"
  unfolding frame_rel_def using keeps_trans by auto

lemma quiet_stays: "quiet m = stays keeps m"
  by (simp add: quiet_def stays_def)

lemma quietI: "(\<And>w. keeps w (snd (m w))) \<Longrightarrow> quiet m"
  by (simp add: quiet_def)

lemma quietD: "quiet m \<Longrightarrow> keeps w (snd (m w))"
  by (simp add: quiet_def)

lemma quiet_after: "quiet m \<Longrightarrow> keeps w w' \<Longrightarrow> keeps w (snd (m w'))"
  unfolding quiet_stays by (rule stays_after [OF frame_keeps])

lemma quiet_then_do: "quiet m \<Longrightarrow> (\<And>x. quiet (f x)) \<Longrightarrow> quiet (then_do m f)"
  unfolding quiet_stays by (rule stays_then_do [OF frame_keeps])

lemma quiet_then_do_after:
  "quiet m \<Longrightarrow> (\<And>x. quiet (f x)) \<Longrightarrow> (\<And>w. keeps w (g w)) \<Longrightarrow> quiet (\<lambda>w. then_do m f (g w))"
  unfolding quiet_stays by (rule stays_then_do_after [OF frame_keeps])

lemma quiet_if: "(c \<Longrightarrow> quiet m) \<Longrightarrow> (\<not> c \<Longrightarrow> quiet n) \<Longrightarrow> quiet (\<lambda>w. if c then m w else n w)"
  unfolding quiet_stays by (rule stays_if)

lemma quiet_if': "(c \<Longrightarrow> quiet m) \<Longrightarrow> (\<not> c \<Longrightarrow> quiet n) \<Longrightarrow> quiet (if c then m else n)"
  unfolding quiet_stays by (rule stays_if')

lemma quiet_pure: "(\<And>w. keeps w (g w)) \<Longrightarrow> quiet (\<lambda>w. (r, g w))"
  unfolding quiet_stays by (rule stays_pure)

lemma quiet_ret: "quiet (\<lambda>w. (r, w))"
  unfolding quiet_stays by (rule stays_ret [OF frame_keeps])

lemma quiet_for_each: "(\<And>x. quiet (body x)) \<Longrightarrow> quiet (for_each body xs)"
  unfolding quiet_stays by (rule stays_for_each [OF frame_keeps])

lemma quiet_for_each_acc: "(\<And>x acc. quiet (body x acc)) \<Longrightarrow> quiet (for_each_acc body xs acc)"
  unfolding quiet_stays by (rule stays_for_each_acc [OF frame_keeps])

lemma quiet_for_each_acc_of:
  "(\<And>x acc. quiet (body x acc)) \<Longrightarrow> quiet (\<lambda>w. for_each_acc body (xs w) acc w)"
  by (rule quietI) (rule quietD [OF quiet_for_each_acc])

lemmas quiet_intros = quiet_then_do_after quiet_then_do quiet_if quiet_if' quiet_pure quiet_ret
  quiet_for_each quiet_for_each_acc

text \<open>The basic pivot under \<^verbatim>\<open>--dry-run\<close>.\<close>

lemma quiet_create_pvc_all: "quiet (create_pvc_all ns name sc sz modes True)"
  by (simp add: quiet_def create_pvc_all_def)

lemma quiet_copy_data_with_pod: "quiet (copy_data_with_pod ns s t p True)"
  by (simp add: quiet_def copy_data_with_pod_def Let_def)

lemma quiet_phase_one_step: "dry_run a \<Longrightarrow> quiet (phase_one_step a p acc)"
  unfolding phase_one_step_def [abs_def]
  by (intro quiet_intros) (simp_all add: quiet_create_pvc_all quiet_copy_data_with_pod)

lemma quiet_phase_two_entry: "dry_run a \<Longrightarrow> quiet (phase_two_entry a e)"
  unfolding phase_two_entry_def [abs_def]
  by (intro quiet_intros) (simp_all add: quiet_create_pvc_all quiet_copy_data_with_pod)

lemma keeps_phase_one: "dry_run a \<Longrightarrow> keeps w (snd (phase_one a w))"
  apply (simp add: phase_one_def Let_def)
  apply (intro impI conjI)
  apply (rule quiet_after)
   apply (intro quiet_intros)
    apply (simp_all add: quiet_phase_one_step)
  done

lemma keeps_phase_two: "dry_run a \<Longrightarrow> keeps w (snd (phase_two a w))"
  apply (simp add: phase_two_def Let_def split: option.split)
  apply (intro impI conjI allI)
  apply (rule quiet_after)
   apply (intro quiet_intros)
    apply (simp_all add: quiet_phase_two_entry)
  done

lemma quiet_main_all: "dry_run a \<Longrightarrow> quiet (main_all a)"
  by (rule quietI) (simp add: main_all_def keeps_phase_one keeps_phase_two)

text \<open>The safe pivot under \<^verbatim>\<open>--dry-run\<close>.\<close>

lemma quiet_create_pvc: "quiet (create_pvc ns name sc sz modes True)"
  by (simp add: quiet_def create_pvc_def)

lemma quiet_copy_data: "quiet (copy_data ns s t p True)"
  by (simp add: quiet_def copy_data_def Let_def)

lemma quiet_scale_to_zero: "quiet (scale_to_zero kind patch True x count b)"
proof (rule quietI)
  fix w
  show "keeps w (snd (scale_to_zero kind patch True x count b w))"
  proof (cases count)
    case None
    then show ?thesis by (simp add: scale_to_zero_def Let_def)
  next
    case (Some n)
    show ?thesis
      apply (simp add: scale_to_zero_def Let_def Some)
      apply (intro impI conjI)
       apply (rule quiet_after, intro quiet_intros, simp_all)+
      done
  qed
qed

lemma quiet_scale_down:
  "quiet (scale_down_deployment names True x b)"
  "quiet (scale_down_replicaset names True x b)"
  "quiet (scale_down_statefulset names True x b)"
  unfolding scale_down_deployment_def [abs_def] scale_down_replicaset_def [abs_def]
    scale_down_statefulset_def [abs_def]
  by (intro quiet_if quiet_ret quiet_scale_to_zero)+

lemma quiet_pause:
  "quiet (pause_daemonset names True x b)"
  "quiet (suspend_cronjob names True x b)"
  "quiet (delete_job names True x b)"
  unfolding pause_daemonset_def [abs_def] suspend_cronjob_def [abs_def] delete_job_def [abs_def]
  by (intro quiet_intros; simp)+

lemma quiet_scale_down_listed: "quiet (scale_down_listed names True c)"
  unfolding scale_down_listed_def
  by (intro quiet_intros quiet_scale_down quiet_pause) simp

lemma quiet_detect_and_scale_down: "quiet (detect_and_scale_down ns names True)"
  by (rule quietI) (simp add: detect_and_scale_down_def quietD [OF quiet_scale_down_listed])

lemma quiet_restore_entry: "quiet (restore_entry True e)"
  by (rule quietI, cases e) (simp add: restore_entry_def restore_scale_def Let_def)

lemma quiet_scale_back_up: "quiet (scale_back_up ns True)"
proof (rule quietI)
  fix w
  show "keeps w (snd (scale_back_up ns True w))"
    apply (simp add: scale_back_up_def split: option.split)
    apply (intro impI conjI allI)
    apply (rule quiet_after)
     apply (intro quiet_intros quiet_restore_entry)
     apply simp_all
    done
qed

lemma quiet_migrate_to_temp: "dry_run a \<Longrightarrow> quiet (migrate_to_temp a p acc)"
  unfolding migrate_to_temp_def [abs_def]
  by (intro quiet_intros) (simp_all add: quiet_create_pvc quiet_copy_data)

lemma quiet_recreate_from_temp: "dry_run a \<Longrightarrow> quiet (recreate_from_temp a r)"
  unfolding recreate_from_temp_def [abs_def]
  by (intro quiet_intros) (simp_all add: quiet_create_pvc quiet_copy_data)

lemma quiet_main_safe: "dry_run a \<Longrightarrow> quiet (main_safe a)"
proof (rule quietI)
  fix w
  assume d: "dry_run a"
  show "keeps w (snd (main_safe a w))"
    apply (simp add: main_safe_def Let_def d split: option.split)
    apply (intro impI conjI allI; (rule quiet_after, intro quiet_intros)?;
        simp add: d quiet_detect_and_scale_down quiet_migrate_to_temp quiet_recreate_from_temp
          quiet_scale_back_up)
    done
qed

text \<open>The migration to a new name under \<^verbatim>\<open>--dry-run\<close>.\<close>

lemma quiet_get_snapshot_class: "quiet (get_snapshot_class_for_storage_class n)"
  by (rule quietI) (simp add: get_snapshot_class_for_storage_class_def split: option.split sum.split)

lemma quiet_create_volume_snapshot: "quiet (create_volume_snapshot ns n c True)"
  by (rule quietI) (simp add: create_volume_snapshot_def Let_def)

lemma quiet_create_new_pvc: "quiet (create_new_pvc p t ns True s)"
  by (rule quietI) (simp add: create_new_pvc_def Let_def)

lemma quiet_create_pivot_pod: "quiet (create_pivot_pod ns s t True)"
  by (rule quietI) (simp add: create_pivot_pod_def Let_def)

lemma quiet_delete_old_pvc: "quiet (delete_old_pvc ns n True e)"
  by (rule quietI) (simp add: delete_old_pvc_def)

lemma keeps_patch_templates:
  "keeps w0 w \<Longrightarrow> keeps w0 (snd (patch_templates old new True x walked vcts u w))"
  by (induction vcts arbitrary: walked u w) simp_all

lemma keeps_patch_volumes:
  "keeps w0 w \<Longrightarrow> keeps w0 (snd (patch_volumes kind old new True x walked vols u w))"
  by (induction vols arbitrary: walked u w) simp_all

lemma quiet_patch_one_workload: "quiet (patch_one_workload kind p n True x f)"
  unfolding patch_one_workload_def [abs_def]
  by (intro quiet_intros; (rule quietI)?; simp add: keeps_patch_templates keeps_patch_volumes)

lemma quiet_check_standalone_pod: "quiet (check_standalone_pod ns old new True ex p f)"
  by (rule quietI) (simp add: check_standalone_pod_def Let_def)

lemma quiet_patch_workload_using_pvc: "quiet (patch_workload_using_pvc ns p n True ex)"
  unfolding patch_workload_using_pvc_def [abs_def]
  by (intro quiet_intros quiet_for_each_acc_of quiet_patch_one_workload quiet_check_standalone_pod)
    simp_all

lemma quiet_take_snapshot: "dry_run a \<Longrightarrow> quiet (take_snapshot a p)"
  unfolding take_snapshot_def [abs_def]
  by (intro quiet_intros quiet_get_snapshot_class)
    (simp_all add: quiet_create_volume_snapshot)

lemma quiet_migrate_pvc: "dry_run a \<Longrightarrow> quiet (migrate_pvc a p)"
  unfolding migrate_pvc_def [abs_def]
  by (intro quiet_intros quiet_take_snapshot)
    (simp_all add: quiet_create_new_pvc quiet_create_pivot_pod quiet_patch_workload_using_pvc
      quiet_delete_old_pvc)

lemma quiet_main_move: "dry_run a \<Longrightarrow> quiet (main_move a)"
proof (rule quietI)
  fix w
  assume d: "dry_run a"
  show "keeps w (snd (main_move a w))"
    apply (simp add: main_move_def Let_def)
    apply (intro impI conjI allI; (rule quiet_after, intro quiet_intros)?;
        simp add: d quiet_migrate_pvc)
    done
qed

text \<open>
  C4. With the dry-run flag set, whatever the other flags, the cluster and the files, a
  run of each of the three scripts issues no create, patch or delete to the cluster, and
  the cluster at its end is the one at its start; this holds also for a run that ends
  with an exception.
\<close>

theorem dry_run_issues_no_mutating_call:
  assumes "dry_run a"
  shows "cluster (snd (main_all a w)) = cluster w
       \<and> api_calls (trace (snd (main_all a w))) = api_calls (trace w)
       \<and> cluster (snd (main_safe a w)) = cluster w
       \<and> api_calls (trace (snd (main_safe a w))) = api_calls (trace w)
       \<and> cluster (snd (main_move a w)) = cluster w
       \<and> api_calls (trace (snd (main_move a w))) = api_calls (trace w)"
  using quietD [OF quiet_main_all [OF assms], of w] quietD [OF quiet_main_safe [OF assms], of w]
    quietD [OF quiet_main_move [OF assms], of w]
  by (simp add: keeps_def)

theorem dry_run_issues_no_mutating_call_witness:
  "dry_run (demo_args\<lparr>dry_run := True, set_replica_0 := True, export_pods := True,
                       prefer_snapshot := True, delete_pvc := True\<rparr>)
   \<and> cluster (snd (main_all (demo_args\<lparr>dry_run := True, set_replica_0 := True, export_pods := True,
                                         prefer_snapshot := True, delete_pvc := True\<rparr>) demo_world))
       = demo_cluster
   \<and> cluster (snd (main_safe (demo_args\<lparr>dry_run := True, set_replica_0 := True, export_pods := True,
                                          prefer_snapshot := True, delete_pvc := True\<rparr>) demo_world))
       = demo_cluster
   \<and> cluster (snd (main_move (demo_args\<lparr>dry_run := True, set_replica_0 := True, export_pods := True,
                                          prefer_snapshot := True, delete_pvc := True\<rparr>) demo_world))
       = demo_cluster
   \<and> api_calls (trace (snd (main_move (demo_args\<lparr>dry_run := True, set_replica_0 := True,
                              export_pods := True, prefer_snapshot := True, delete_pvc := True\<rparr>)
                            demo_world))) = []"
proof -
  let ?a = "demo_args\<lparr>dry_run := True, set_replica_0 := True, export_pods := True,
                       prefer_snapshot := True, delete_pvc := True\<rparr>"
  have d: "dry_run ?a" by simp
  from dry_run_issues_no_mutating_call [OF d, of demo_world] d show ?thesis
    by (simp add: demo_world_def api_calls_def)
qed

subsection \<open>The scale-state file is written after the mutations\<close>

lemma new_events_same [simp]: "new_events w w = []"
  by (simp add: new_events_def)

lemma only_calls_refl [simp]: "only_calls w w"
  by (simp add: only_calls_def)

lemma new_events_eq: "trace w' = trace w @ cs \<Longrightarrow> new_events w w' = cs"
  by (simp add: new_events_def)

lemma new_events_trans:
  "trace b = trace a @ new_events a b \<Longrightarrow> trace c = trace b @ new_events b c
   \<Longrightarrow> new_events a c = new_events a b @ new_events b c"
  by (rule new_events_eq) (metis append.assoc)

lemma only_calls_trans: "only_calls a b \<Longrightarrow> only_calls b c \<Longrightarrow> only_calls a c"
  unfolding only_calls_def
  using new_events_trans [of b a c] by (metis append.assoc list_all_append)

lemma frame_only_calls [simp]: "frame_rel only_calls"
  unfolding frame_rel_def using only_calls_trans by auto

lemma only_calls_print [simp]: "only_calls w (print msg w') = only_calls w w'"
  by (simp add: only_calls_def print_def new_events_def)

lemma only_calls_api:
  "is_api_call ev \<Longrightarrow> only_calls w (snd (api_call ev f w))"
  by (simp add: only_calls_def api_call_def Let_def new_events_def split: sum.split)

lemma stays_api: "is_api_call ev \<Longrightarrow> stays only_calls (api_call ev f)"
  by (rule staysI) (rule only_calls_api)

lemma stays_scale_to_zero: "stays only_calls (scale_to_zero kind patch dry x count b)"
proof (rule staysI)
  fix w
  show "only_calls w (snd (scale_to_zero kind patch dry x count b w))"
  proof (cases count)
    case None
    then show ?thesis by (simp add: scale_to_zero_def Let_def)
  next
    case (Some n)
    show ?thesis
      apply (simp add: scale_to_zero_def Let_def Some)
      apply (intro impI conjI; rule stays_after, simp, intro stays_intros stays_api;
          simp add: is_api_call_def)
      done
  qed
qed

lemma stays_scale_down:
  "stays only_calls (scale_down_deployment names dry x b)"
  "stays only_calls (scale_down_replicaset names dry x b)"
  "stays only_calls (scale_down_statefulset names dry x b)"
  unfolding scale_down_deployment_def [abs_def] scale_down_replicaset_def [abs_def]
    scale_down_statefulset_def [abs_def]
  by (intro stays_if stays_ret stays_scale_to_zero frame_only_calls)+

lemma stays_pause:
  "stays only_calls (pause_daemonset names dry x b)"
  "stays only_calls (suspend_cronjob names dry x b)"
  "stays only_calls (delete_job names dry x b)"
  unfolding pause_daemonset_def [abs_def] suspend_cronjob_def [abs_def] delete_job_def [abs_def]
  by (intro stays_intros stays_api; simp add: is_api_call_def)+

lemma written_last_then_do:
  assumes m: "stays only_calls m" and f: "\<And>x. written_last (f x)"
  shows "written_last (then_do m f)"
  unfolding written_last_def
proof
  fix w
  obtain r w1 where e: "m w = (r, w1)" by (cases "m w")
  with staysD [OF m, of w] have k: "only_calls w w1" by simp
  show "case then_do m f w of
          (Return b, w') \<Rightarrow>
            trace w' = trace w @ new_events w w' \<and> new_events w w' \<noteq> []
            \<and> last (new_events w w') = Write_file SCALE_TRACK_FILE
            \<and> list_all is_api_call (butlast (new_events w w'))
            \<and> scale_track_file w' = Some b
        | (r, w') \<Rightarrow> only_calls w w'"
  proof (cases r)
    case (Return x)
    obtain r2 w2 where e2: "f x w1 = (r2, w2)" by (cases "f x w1")
    from f [of x] e2 have p: "case (r2, w2) of
          (Return b, w') \<Rightarrow>
            trace w' = trace w1 @ new_events w1 w' \<and> new_events w1 w' \<noteq> []
            \<and> last (new_events w1 w') = Write_file SCALE_TRACK_FILE
            \<and> list_all is_api_call (butlast (new_events w1 w'))
            \<and> scale_track_file w' = Some b
        | (r, w') \<Rightarrow> only_calls w1 w'"
      unfolding written_last_def by (metis (mono_tags, lifting))
    have t: "then_do m f w = (r2, w2)" using e e2 Return by (simp add: then_do_def)
    show ?thesis
    proof (cases r2)
      case (Return b)
      with p have q: "trace w2 = trace w1 @ new_events w1 w2" "new_events w1 w2 \<noteq> []"
        "last (new_events w1 w2) = Write_file SCALE_TRACK_FILE"
        "list_all is_api_call (butlast (new_events w1 w2))" "scale_track_file w2 = Some b"
        by simp_all
      from k have k': "trace w1 = trace w @ new_events w w1" "list_all is_api_call (new_events w w1)"
        by (simp_all add: only_calls_def)
      have n: "new_events w w2 = new_events w w1 @ new_events w1 w2"
        by (rule new_events_trans [OF k'(1) q(1)])
      show ?thesis
        using t Return q k' n by (simp add: butlast_append)
    next
      case (Raise e)
      with p t k show ?thesis using only_calls_trans by auto
    next
      case Hang
      with p t k show ?thesis using only_calls_trans by auto
    qed
  next
    case (Raise e)
    with e k show ?thesis by (simp add: then_do_def)
  next
    case Hang
    with e k show ?thesis by (simp add: then_do_def)
  qed
qed

lemma written_last_write: "written_last (\<lambda>w. (Return b, write_scale_file b w))"
  by (simp add: written_last_def write_scale_file_def new_events_def)

lemma written_last_scale_down_listed: "written_last (scale_down_listed names False c)"
  unfolding scale_down_listed_def
  by (intro written_last_then_do stays_for_each_acc stays_scale_down stays_pause frame_only_calls)
    (simp add: written_last_write)

text \<open>
  C8, as the code has it. In a run of the quiescence step that is not a dry run and
  returns, the scale-state file is written once, as the last step, after every
  scale-down, suspend, node-selector patch and delete of the scan has been applied; a
  run that stops earlier has written no scale-state file.
\<close>

theorem scale_state_written_last:
  "(\<forall>b. fst (detect_and_scale_down ns names False w) = Return b \<longrightarrow>
        trace (snd (detect_and_scale_down ns names False w))
          = trace w @ new_events w (snd (detect_and_scale_down ns names False w))
        \<and> new_events w (snd (detect_and_scale_down ns names False w)) \<noteq> []
        \<and> last (new_events w (snd (detect_and_scale_down ns names False w))) = Write_file SCALE_TRACK_FILE
        \<and> list_all is_api_call (butlast (new_events w (snd (detect_and_scale_down ns names False w))))
        \<and> scale_track_file (snd (detect_and_scale_down ns names False w)) = Some b)
   \<and> ((\<forall>b. fst (detect_and_scale_down ns names False w) \<noteq> Return b) \<longrightarrow>
        list_all is_api_call (new_events w (snd (detect_and_scale_down ns names False w)))
        \<and> scale_track_file (snd (detect_and_scale_down ns names False w)) = scale_track_file w)"
proof -
  obtain r w' where e: "scale_down_listed names False (cluster w) w = (r, w')"
    by (cases "scale_down_listed names False (cluster w) w")
  from written_last_scale_down_listed [of names "cluster w"] e
  show ?thesis
    unfolding written_last_def detect_and_scale_down_def
    by (cases r) (auto simp: only_calls_def dest: spec [of _ w])
qed

theorem scale_state_written_last_witness:
  "fst (detect_and_scale_down ''prod'' [''data-pvc''] False demo_world)
     = Return [(''uid-web'', ''Deployment'', ''web'', VInt 3),
               (''uid-db'', ''StatefulSet'', ''db'', VInt 2),
               (''uid-nightly'', ''CronJob'', ''nightly'', VBool True),
               (''uid-import'', ''Job'', ''import'', VStr ''deleted'')]
   \<and> last (new_events demo_world (snd (detect_and_scale_down ''prod'' [''data-pvc''] False demo_world)))
       = Write_file SCALE_TRACK_FILE
   \<and> list_all is_api_call
        (butlast (new_events demo_world (snd (detect_and_scale_down ''prod'' [''data-pvc''] False demo_world))))
   \<and> fst (detect_and_scale_down ''prod'' [''data-pvc''] False unscaled_world) = Raise TypeError
   \<and> scale_track_file (snd (detect_and_scale_down ''prod'' [''data-pvc''] False unscaled_world))
       = scale_track_file unscaled_world"
proof -
  have r: "fst (detect_and_scale_down ''prod'' [''data-pvc''] False demo_world)
     = Return [(''uid-web'', ''Deployment'', ''web'', VInt 3),
               (''uid-db'', ''StatefulSet'', ''db'', VInt 2),
               (''uid-nightly'', ''CronJob'', ''nightly'', VBool True),
               (''uid-import'', ''Job'', ''import'', VStr ''deleted'')]"
    by code_simp
  have u: "fst (detect_and_scale_down ''prod'' [''data-pvc''] False unscaled_world) = Raise TypeError"
    by code_simp
  from scale_state_written_last [of "''prod''" "[''data-pvc'']" demo_world] r
    scale_state_written_last [of "''prod''" "[''data-pvc'']" unscaled_world] u
  show ?thesis by simp
qed

text \<open>
  The claim as stated fails: in the example namespace the four mutations come first and
  the write of the file last; and with a Deployment whose replica count is not set, the
  run stops with a \<^verbatim>\<open>TypeError\<close> after it has scaled the first Deployment to 0, and no
  scale-state file exists.
\<close>

theorem scale_state_written_first_counterexample:
  "trace (snd (detect_and_scale_down ''prod'' [''data-pvc''] False demo_world))
     = [Patch_scale ''Deployment'' ''web'' (VInt 0), Patch_scale ''StatefulSet'' ''db'' (VInt 0),
        Patch_cron_job ''nightly'' True, Delete_job ''import'',
        Write_file ''workload_scale_backup.json'']
   \<and> fst (detect_and_scale_down ''prod'' [''data-pvc''] False unscaled_world) = Raise TypeError
   \<and> trace (snd (detect_and_scale_down ''prod'' [''data-pvc''] False unscaled_world))
       = [Patch_scale ''Deployment'' ''web'' (VInt 0)]
   \<and> map w_replicas (deployments (cluster (snd (detect_and_scale_down ''prod'' [''data-pvc''] False
                                                   unscaled_world)))) = [Some 0, None]
   \<and> scale_track_file (snd (detect_and_scale_down ''prod'' [''data-pvc''] False unscaled_world)) = None"
  by (intro conjI; code_simp)

subsection \<open>Phase 1 run twice\<close>

text \<open>
  C5. The claim asks that a second phase 1 without a phase 2 in between treats the
  conflict of the create as success and goes on. The safe variant does; in the basic
  variant \<^verbatim>\<open>create_pvc\<close> has no handler: on the example namespace the first run returns,
  and the second stops with the 409 of its create of \<^verbatim>\<open>data-pvc-temp\<close>, the only call it
  issues.
\<close>

theorem phase_one_twice_basic_aborts:
  "fst (main_all demo_args demo_world) = Return ()
   \<and> fst (main_all demo_args (snd (main_all demo_args demo_world))) = Raise (ApiException 409)
   \<and> new_events (snd (main_all demo_args demo_world))
        (snd (main_all demo_args (snd (main_all demo_args demo_world))))
       = [Create_pvc (new_pvc ''data-pvc-temp'' ''netapp'' ''10Gi'' [''ReadWriteOnce''])]
   \<and> fst (main_safe demo_args (snd (main_safe demo_args demo_world))) = Return ()"
  by (intro conjI; code_simp)

subsection \<open>Phase 2 on an empty ledger\<close>

text \<open>
  C6. The claim asks that phase 2 on an absent or empty ledger stops with a message and
  changes nothing. The basic variant does both; the safe variant checks only that the
  file exists: on an empty ledger it prints nothing about it, runs the restore pass
  (here it scales the Deployment to the recorded 5) and removes both state files.
\<close>

theorem empty_ledger_safe_restores_and_removes:
  "fst (main_safe (demo_args\<lparr>recreate := True\<rparr>) empty_ledger_world) = Return ()
   \<and> printed (snd (main_safe (demo_args\<lparr>recreate := True\<rparr>) empty_ledger_world))
       = [''[+] Restoring Deployment '' @ q ''web'' @ '' to replicas=5'']
   \<and> trace (snd (main_safe (demo_args\<lparr>recreate := True\<rparr>) empty_ledger_world))
       = [Patch_scale ''Deployment'' ''web'' (VInt 5), Remove_file SCALE_TRACK_FILE,
          Remove_file DEFAULT_METADATA_FILE]
   \<and> map w_replicas (deployments (cluster (snd (main_safe (demo_args\<lparr>recreate := True\<rparr>)
                                                   empty_ledger_world)))) = [Some 5]
   \<and> printed (snd (main_all (demo_args\<lparr>recreate := True\<rparr>) empty_ledger_world))
       = [''[!] Metadata is empty. Nothing to recreate.'']
   \<and> trace (snd (main_all (demo_args\<lparr>recreate := True\<rparr>) empty_ledger_world)) = []"
  by (intro conjI; code_simp)

subsection \<open>A snapshot that cannot be created\<close>

text \<open>
  C9. The claim asks that any failure of the snapshot path falls back to the copy pod.
  A failure of the probe does (it is caught in \<^verbatim>\<open>get_snapshot_class_for_storage_class\<close>);
  a failure of the creation is not caught: when a snapshot \<^verbatim>\<open>data-pvc-snap\<close> exists
  already, the run stops with the 409 of the create, and neither a destination claim nor
  a copy pod is made.
\<close>

theorem snapshot_conflict_aborts:
  "fst (main_move (demo_args\<lparr>prefer_snapshot := True\<rparr>) leftover_snapshot_world)
     = Raise (ApiException 409)
   \<and> trace (snd (main_move (demo_args\<lparr>prefer_snapshot := True\<rparr>) leftover_snapshot_world))
       = [Create_snapshot ''data-pvc-snap'']
   \<and> pvcs (cluster (snd (main_move (demo_args\<lparr>prefer_snapshot := True\<rparr>) leftover_snapshot_world)))
       = [data_pvc]"
  by (intro conjI; code_simp)

end
